theory Spec2Isabelle
  imports Complex_Main
begin

section \<open>Grid controller front end: dispatch, polling, capture and patrol\<close>

text \<open>
  The repository holds several revisions of one browser script. Three of them are
  embedded here:
  \<^item> the revision with capture, patrol and the position indicator (the script stored
    after the project description in \<open>src/README.md\<close>); its names are kept as they are;
  \<^item> the revision in \<open>src/unnamed/part_000\<close> (same engine, no capture and no patrol);
    its functions carry the suffix \<open>_p000\<close>;
  \<^item> the first script of \<open>src/static/app.js\<close> (the AGV revision, which tracks a task
    number); its names already differ (\<open>isAgvBusy\<close>, \<open>startPollingAgvStatus\<close>, ...),
    and where they do not they carry the suffix \<open>_agv\<close>.
  The second script of \<open>static/app.js\<close>, an older revision that polls from the
  \<open>finally\<close> block of its own poll and has no operation to start or stop polling, is not
  embedded.

  JavaScript runs every callback to completion on one thread. An \<open>async\<close> function or a
  \<open>fetch(...).then(...).catch(...)\<close> chain is therefore split at its suspension point:
  one function for the part that runs when it is called (it issues the request) and one,
  named \<open>..._settled\<close>, for the part that runs when the response has arrived.
  The user interface literals of the scripts are Chinese; they are written here as
  ASCII glosses, and the style attributes of the markup are left out.
\<close>

subsection \<open>JavaScript values\<close>

datatype jv = JNull | JUndef | JNum int | JStr string | JBool bool

fun truthy :: "jv \<Rightarrow> bool" where
  "truthy JNull = False"
| "truthy JUndef = False"
| "truthy (JNum n) = (n \<noteq> 0)"
| "truthy (JStr s) = (s \<noteq> [])"
| "truthy (JBool b) = b"

text \<open>Decimal rendering of an integer inside a template literal.\<close>

fun show_nat :: "nat \<Rightarrow> string" where
  "show_nat n =
     (if n < 10 then [char_of (48 + n)]
      else show_nat (n div 10) @ [char_of (48 + n mod 10)])"

declare show_nat.simps [simp del]

definition show_int :: "int \<Rightarrow> string" where
  "show_int i = (if i < 0 then CHR ''-'' # show_nat (nat (- i)) else show_nat (nat i))"

fun show_jv :: "jv \<Rightarrow> string" where
  "show_jv JNull = ''null''"
| "show_jv JUndef = ''undefined''"
| "show_jv (JNum n) = show_int n"
| "show_jv (JStr s) = s"
| "show_jv (JBool b) = (if b then ''true'' else ''false'')"

text \<open>\<open>a || b\<close> on an optional string field: the default replaces a missing and an
  empty string alike.\<close>

fun str_or :: "string option \<Rightarrow> string \<Rightarrow> string" where
  "str_or None d = d"
| "str_or (Some a) d = (if a = [] then d else a)"

text \<open>\<open>haystack.includes(needle)\<close>.\<close>

fun starts_with :: "string \<Rightarrow> string \<Rightarrow> bool" where
  "starts_with [] h = True"
| "starts_with (c # cs) [] = False"
| "starts_with (c # cs) (d # ds) = (c = d \<and> starts_with cs ds)"

fun includes_str :: "string \<Rightarrow> string \<Rightarrow> bool" where
  "includes_str [] needle = (needle = [])"
| "includes_str (c # cs) needle = (starts_with needle (c # cs) \<or> includes_str cs needle)"

text \<open>The outcome of a \<open>fetch\<close> whose body is read with \<open>resp.json()\<close>: either the
  request or the parse threw (the \<open>catch\<close> branch runs, with the error's text), or a
  body arrived.\<close>

datatype 'a fetched = Failed string | Replied 'a

subsection \<open>The browser: interval timers and outgoing requests\<close>

datatype request =
    GetStatusSummary
  | PostClick int int
  | PostCapture jv jv
  | PostAgvHome
  | PostSendTask string

record browser =
  timers :: "nat list"
  nextTimer :: nat
  requests :: "request list"

definition setInterval :: "'a browser_scheme \<Rightarrow> nat \<times> 'a browser_scheme" where
  "setInterval b =
     (nextTimer b, b\<lparr>timers := timers b @ [nextTimer b], nextTimer := Suc (nextTimer b)\<rparr>)"

definition clearInterval :: "nat \<Rightarrow> 'a browser_scheme \<Rightarrow> 'a browser_scheme" where
  "clearInterval h b = b\<lparr>timers := removeAll h (timers b)\<rparr>"

definition fetch :: "request \<Rightarrow> 'a browser_scheme \<Rightarrow> 'a browser_scheme" where
  "fetch r b = b\<lparr>requests := requests b @ [r]\<rparr>"

subsection \<open>Parameters\<close>

definition COLS :: int where "COLS = 6"
definition ROWS :: int where "ROWS = 10"
definition CUBE_SIZE :: rat where "CUBE_SIZE = 1"
definition INDICATOR_HEIGHT :: rat where "INDICATOR_HEIGHT = 2 * CUBE_SIZE"

definition xPosFromIndex :: "int \<Rightarrow> rat" where
  "xPosFromIndex ix = (of_int ix - (of_int COLS + 1) / 2) * CUBE_SIZE"

subsection \<open>Patrol waypoints (startPatrol)\<close>

text \<open>
  The three nested loops of \<open>startPatrol\<close>, each as a recursive function over its loop
  variable with the list built so far (the loop variable \<open>round\<close> is written
  \<open>rnd\<close>). \<open>patrol_rounds\<close> collects, in order, the
  arguments of every \<open>dispatchClickAndWait(x, y)\<close> the loops reach.
\<close>

definition AGV_X_POSITIONS :: int where "AGV_X_POSITIONS = 5"
definition TRACK_Y_POSITIONS :: int where "TRACK_Y_POSITIONS = 9"

function y_ascending :: "int \<Rightarrow> int list \<Rightarrow> int list" where
  "y_ascending y ySequence =
     (if y \<le> TRACK_Y_POSITIONS then y_ascending (y + 1) (ySequence @ [y]) else ySequence)"
  by pat_completeness auto
termination
  by (relation "measure (\<lambda>(y, ys). nat (TRACK_Y_POSITIONS + 1 - y))") auto

function y_descending :: "int \<Rightarrow> int list \<Rightarrow> int list" where
  "y_descending y ySequence =
     (if y \<ge> 6 then y_descending (y - 1) (ySequence @ [y]) else ySequence)"
  by pat_completeness auto
termination
  by (relation "measure (\<lambda>(y, ys). nat (y - 5))") auto

definition ySequence :: "int \<Rightarrow> int list" where
  "ySequence x =
     (if x mod 2 \<noteq> 0 then y_ascending 6 [] else y_descending TRACK_Y_POSITIONS [])"

function patrol_columns :: "int \<Rightarrow> (int \<times> int) list \<Rightarrow> (int \<times> int) list" where
  "patrol_columns x visited =
     (if x \<le> AGV_X_POSITIONS
      then patrol_columns (x + 1) (visited @ map (\<lambda>y. (x, y)) (ySequence x))
      else visited)"
  by pat_completeness auto
termination
  by (relation "measure (\<lambda>(x, v). nat (AGV_X_POSITIONS + 1 - x))") auto

function patrol_rounds :: "int \<Rightarrow> int \<Rightarrow> (int \<times> int) list \<Rightarrow> (int \<times> int) list" where
  "patrol_rounds rnd repeatTimes visited =
     (if rnd \<le> repeatTimes
      then patrol_rounds (rnd + 1) repeatTimes (patrol_columns 1 visited)
      else visited)"
  by pat_completeness auto
termination
  by (relation "measure (\<lambda>(r, n, v). nat (n + 1 - r))") auto

definition patrol_waypoints :: "int \<Rightarrow> (int \<times> int) list" where
  "patrol_waypoints repeatTimes = patrol_rounds 1 repeatTimes []"

declare y_ascending.simps [simp del] y_descending.simps [simp del]
  patrol_columns.simps [simp del] patrol_rounds.simps [simp del]

text \<open>The list the claim about the patrol names, written out.\<close>

definition snake_round :: "(int \<times> int) list" where
  "snake_round =
     [(1,6),(1,7),(1,8),(1,9), (2,9),(2,8),(2,7),(2,6), (3,6),(3,7),(3,8),(3,9),
      (4,9),(4,8),(4,7),(4,6), (5,6),(5,7),(5,8),(5,9)]"


subsection \<open>State of the capture and patrol revision\<close>

text \<open>
  The script's top-level variables, followed by what the handlers do to the page:
  \<open>statusEl\<close> is the markup of the status element, \<open>hoverVisible\<close> is
  \<open>hoverPlane.visible\<close>, \<open>indicatorPos\<close> is \<open>agvIndicatorTube.position\<close>,
  \<open>indicatorTween\<close> the target and duration of the tween started last, \<open>alerts\<close> the
  texts passed to \<open>alert\<close>. A promise's \<open>resolve\<close> function is a number that names the
  promise; \<open>resolveCalls\<close> lists the resolve functions called so far. The status panel of
  the SYSTEM STATUS button and \<open>console.log\<close> output are not part of the state.
\<close>

type_synonym vec3 = "rat \<times> rat \<times> rat"

record sys_state = browser +
  isSystemBusy :: bool
  wasSystemBusy :: bool
  currentClickX :: jv
  currentClickY :: jv
  patrolResolveFunction :: "nat option"
  systemPollingIntervalId :: "nat option"
  resolveCalls :: "nat list"
  statusEl :: string
  hoverVisible :: bool
  indicatorPos :: vec3
  indicatorTween :: "(vec3 \<times> nat) option"
  alerts :: "string list"

text \<open>The state after the script's top level has run, before any callback:
  \<open>createAgvIndicator\<close> has placed the indicator in front of column 1.\<close>

definition initial_state :: sys_state where
  "initial_state =
     \<lparr>timers = [], nextTimer = 1, requests = [],
      isSystemBusy = False, wasSystemBusy = False,
      currentClickX = JNull, currentClickY = JNull,
      patrolResolveFunction = None, systemPollingIntervalId = None,
      resolveCalls = [], statusEl = [], hoverVisible = False,
      indicatorPos = (xPosFromIndex 1, - 1/2 + INDICATOR_HEIGHT / 2, CUBE_SIZE * 2),
      indicatorTween = None, alerts = []\<rparr>"

subsection \<open>Status, polling and capture\<close>

definition hideHover :: "sys_state \<Rightarrow> sys_state" where
  "hideHover s = s\<lparr>hoverVisible := False\<rparr>"

text \<open>\<open>triggerCapture\<close> up to its \<open>await fetch\<close>: the request carries the stored
  coordinates as they are at the call.\<close>

definition triggerCapture :: "sys_state \<Rightarrow> sys_state" where
  "triggerCapture s = fetch (PostCapture (currentClickX s) (currentClickY s)) s"

record capture_reply =
  cap_http_ok :: bool
  cap_ok :: bool
  cap_filename :: jv
  cap_error :: jv

text \<open>\<open>triggerCapture\<close> after the response: a line is added to the status element, and
  the \<open>finally\<close> block clears the stored coordinates.\<close>

definition triggerCapture_settled :: "capture_reply fetched \<Rightarrow> sys_state \<Rightarrow> sys_state" where
  "triggerCapture_settled r s =
     (let s1 =
        (case r of
           Replied d \<Rightarrow>
             if cap_http_ok d \<and> cap_ok d
             then s\<lparr>statusEl := statusEl s @ ''<br/><span class=ok>Capture succeeded: ''
                                   @ show_jv (cap_filename d) @ ''</span>''\<rparr>
             else s\<lparr>statusEl := statusEl s @ ''<br/><span class=err>Capture failed: ''
                                   @ show_jv (cap_error d) @ ''</span>''\<rparr>
         | Failed msg \<Rightarrow>
             s\<lparr>statusEl := statusEl s @ ''<br/><span class=err>Capture request failed: ''
                                   @ msg @ ''</span>''\<rparr>)
      in s1\<lparr>currentClickX := JNull, currentClickY := JNull\<rparr>)"

definition updateSystemBusyStatus :: "bool \<Rightarrow> string \<Rightarrow> sys_state \<Rightarrow> sys_state" where
  "updateSystemBusyStatus busy message s =
     (let s1 = s\<lparr>isSystemBusy := busy\<rparr> in
      if isSystemBusy s1
      then hideHover
             (s1\<lparr>statusEl := ''<span class=err>System busy: ''
                     @ str_or (Some message) ''the previous job has not finished''
                     @ '', please wait.</span>''\<rparr>)
      else s1\<lparr>statusEl := ''<span class=ok>System ready: ''
                     @ str_or (Some message) ''click a cube to send a new command.''
                     @ ''</span>''\<rparr>)"

definition stopPollingSystemStatus :: "sys_state \<Rightarrow> sys_state" where
  "stopPollingSystemStatus s =
     (case systemPollingIntervalId s of
        None \<Rightarrow> s
      | Some h \<Rightarrow>
          (let s1 = clearInterval h s;
               s2 = s1\<lparr>systemPollingIntervalId := None\<rparr>
           in case patrolResolveFunction s2 of
                None \<Rightarrow> s2
              | Some resolve \<Rightarrow>
                  s2\<lparr>resolveCalls := resolveCalls s2 @ [resolve],
                      patrolResolveFunction := None\<rparr>))"

record status_summary =
  http_ok :: bool
  system_busy :: "bool option"
  details_message :: "string option"
  error_text :: "string option"
  location :: "string option"
  task_targetTag :: "string option"

text \<open>\<open>pollSystemStatus\<close> up to its \<open>await fetch\<close>.\<close>

definition pollSystemStatus :: "sys_state \<Rightarrow> sys_state" where
  "pollSystemStatus s = fetch GetStatusSummary s"

text \<open>\<open>pollSystemStatus\<close> after the response, \<open>finally\<close> block included:
  \<open>system_busy = None\<close> is \<open>data.system_busy === undefined\<close>.\<close>

definition pollSystemStatus_settled :: "status_summary fetched \<Rightarrow> sys_state \<Rightarrow> sys_state" where
  "pollSystemStatus_settled r s =
     (let s' =
        (case r of
           Replied data \<Rightarrow>
             (case system_busy data of
                Some busy \<Rightarrow>
                  if http_ok data
                  then
                    (let s1 = updateSystemBusyStatus busy
                                (str_or (details_message data) ''running...'') s;
                         s2 = (if wasSystemBusy s1 \<and> \<not> busy then triggerCapture s1 else s1)
                     in if \<not> busy then stopPollingSystemStatus s2 else s2)
                  else updateSystemBusyStatus True
                         (str_or (error_text data) ''Server could not get the system status.'') s
              | None \<Rightarrow>
                  updateSystemBusyStatus True
                    (str_or (error_text data) ''Server could not get the system status.'') s)
         | Failed msg \<Rightarrow>
             updateSystemBusyStatus True (''Communication error: '' @ msg) s)
      in s'\<lparr>wasSystemBusy := isSystemBusy s'\<rparr>)"

definition startPollingSystemStatus :: "sys_state \<Rightarrow> sys_state" where
  "startPollingSystemStatus s =
     (if systemPollingIntervalId s = None
      then
        (let s1 = s\<lparr>wasSystemBusy := True\<rparr>;
             s2 = pollSystemStatus s1;
             (h, s3) = setInterval s2
         in s3\<lparr>systemPollingIntervalId := Some h\<rparr>)
      else s)"

text \<open>The browser runs the callback of an interval timer that is still set.\<close>

definition interval_fires :: "sys_state \<Rightarrow> sys_state" where
  "interval_fires s = (if timers s = [] then s else pollSystemStatus s)"

subsection \<open>Dispatch\<close>

record click_reply =
  ack_http_ok :: bool
  ack_ok :: bool
  ack_x :: jv
  ack_y :: jv
  ack_error :: "string option"

definition sendClick :: "int \<Rightarrow> int \<Rightarrow> sys_state \<Rightarrow> sys_state" where
  "sendClick x y s =
     (if isSystemBusy s then s
      else
        (let s1 = s\<lparr>statusEl := ''Sending: x='' @ show_int x @ '', y='' @ show_int y @ '' ...''\<rparr>;
             s2 = updateSystemBusyStatus True ''dispatching the task...'' s1;
             s3 = s2\<lparr>currentClickX := JNum x, currentClickY := JNum y\<rparr>
         in fetch (PostClick x y) s3))"

text \<open>The \<open>then\<close> and \<open>catch\<close> handlers of the request \<open>sendClick\<close> issued.\<close>

definition sendClick_settled :: "click_reply fetched \<Rightarrow> sys_state \<Rightarrow> sys_state" where
  "sendClick_settled r s =
     (case r of
        Replied data \<Rightarrow>
          if \<not> ack_http_ok data \<or> \<not> ack_ok data
          then
            (let errorMsg = str_or (ack_error data) ''unknown error'';
                 s1 = s\<lparr>statusEl := ''<span class=err>Command failed: '' @ errorMsg @ ''</span>''\<rparr>;
                 s2 = updateSystemBusyStatus False
                        ''the server rejected the command, please retry.'' s1
             in stopPollingSystemStatus s2)
          else
            startPollingSystemStatus
              (s\<lparr>statusEl := ''Status: <span class=ok>OK</span> (task dispatched x=''
                    @ show_jv (ack_x data) @ '', y='' @ show_jv (ack_y data) @ '')''\<rparr>)
      | Failed msg \<Rightarrow>
          (let s1 = s\<lparr>statusEl := ''Status: <span class=err>Request failed: '' @ msg @ ''</span>''\<rparr>;
               s2 = updateSystemBusyStatus False
                      ''the request failed, please check the network connection.'' s1
           in stopPollingSystemStatus s2))"

text \<open>\<open>dispatchClickAndWait\<close>: the executor of the new promise runs at once; \<open>resolve\<close>
  names the promise the patrol awaits.\<close>

definition dispatchClickAndWait :: "nat \<Rightarrow> int \<Rightarrow> int \<Rightarrow> sys_state \<Rightarrow> sys_state" where
  "dispatchClickAndWait resolve x y s = sendClick x y (s\<lparr>patrolResolveFunction := Some resolve\<rparr>)"


subsection \<open>Indicator\<close>

definition animateIndicatorToPosition :: "int \<Rightarrow> int \<Rightarrow> sys_state \<Rightarrow> sys_state" where
  "animateIndicatorToPosition gridX gridY s =
     (let targetX = xPosFromIndex gridX;
          targetY = - 1/2 + INDICATOR_HEIGHT / 2
      in s\<lparr>indicatorTween := Some ((targetX, targetY, CUBE_SIZE * 2), 5000)\<rparr>)"

definition homePosition :: vec3 where
  "homePosition =
     (xPosFromIndex 1 - CUBE_SIZE / 2 - 2 * CUBE_SIZE, - 1/2 + INDICATOR_HEIGHT / 2, CUBE_SIZE * 2)"

definition animateIndicatorToHomePosition :: "sys_state \<Rightarrow> sys_state" where
  "animateIndicatorToHomePosition s = s\<lparr>indicatorTween := Some (homePosition, 1500)\<rparr>"

text \<open>The table \<open>TARGET_TAG_TO_X\<close>: a tag maps to the string \<open>'home'\<close> or to a number.\<close>

datatype tag_target = TagHome | TagColumn int

definition TARGET_TAG_TO_X :: "(string \<times> tag_target) list" where
  "TARGET_TAG_TO_X =
     [(''1001'', TagHome), (''1002'', TagColumn 1), (''1003'', TagColumn 2),
      (''1004'', TagColumn 3), (''1005'', TagColumn 4), (''1006'', TagColumn 5),
      (''1007'', TagColumn 6), (''1009'', TagColumn 7)]"

text \<open>\<open>data?.agv_raw_status?.location || data?.agv_raw_status?.task?.targetTag\<close>:
  \<open>None\<close> is \<open>undefined\<close>; an empty location is falsy and gives way to the task's tag.\<close>

definition locationTag :: "status_summary \<Rightarrow> string option" where
  "locationTag data =
     (case location data of
        Some l \<Rightarrow> if l \<noteq> [] then Some l else task_targetTag data
      | None \<Rightarrow> task_targetTag data)"

text \<open>\<open>TARGET_TAG_TO_X[locationTag]\<close>. A key the table does not own reads as
  \<open>undefined\<close> or as a member of \<open>Object.prototype\<close>, which is neither \<open>'home'\<close> nor a
  number: both are \<open>None\<close> here and take the last branch of the caller.\<close>

definition tag_lookup :: "string option \<Rightarrow> tag_target option" where
  "tag_lookup tag = (case tag of None \<Rightarrow> None | Some k \<Rightarrow> map_of TARGET_TAG_TO_X k)"

text \<open>\<open>initializeIndicatorPosition\<close> after the response. A response that is not ok is
  not parsed; \<open>Failed\<close> is the \<open>catch\<close> branch.\<close>

definition initializeIndicatorPosition_settled ::
    "status_summary fetched \<Rightarrow> sys_state \<Rightarrow> sys_state" where
  "initializeIndicatorPosition_settled r s =
     (case r of
        Failed msg \<Rightarrow> s\<lparr>indicatorPos := homePosition\<rparr>
      | Replied data \<Rightarrow>
          if \<not> http_ok data then s\<lparr>indicatorPos := homePosition\<rparr>
          else
            (case tag_lookup (locationTag data) of
               Some TagHome \<Rightarrow> s\<lparr>indicatorPos := homePosition\<rparr>
             | Some (TagColumn agvX) \<Rightarrow>
                 if agvX \<ge> 1 \<and> agvX \<le> 7
                 then s\<lparr>indicatorPos :=
                          (xPosFromIndex agvX, - 1/2 + INDICATOR_HEIGHT / 2, CUBE_SIZE * 2)\<rparr>
                 else s\<lparr>indicatorPos := homePosition\<rparr>
             | None \<Rightarrow> s\<lparr>indicatorPos := homePosition\<rparr>))"

subsection \<open>Pointer and button handlers\<close>

text \<open>
  \<open>pickMeshes\<close> holds the \<open>userData\<close> of every mesh the raycaster tests: the cubes of the
  two nested loops (which collect the pairs \<open>{x: ix, y: iy}\<close>), then the machine panel. A hit is the mesh with the two comparisons
  \<open>onClick\<close> makes on the face normal: \<open>faces_front\<close> is
  \<open>worldNormal.dot(FRONT_NORMAL) > ANG_TOL\<close> and \<open>faces_right\<close> is
  \<open>worldNormal.dot(RIGHT_NORMAL) > ANG_TOL\<close>.
\<close>

datatype userData = Cube int int | MachinePanel

function cube_rows :: "int \<Rightarrow> int \<Rightarrow> (int \<times> int) list \<Rightarrow> (int \<times> int) list" where
  "cube_rows ix iy meshes =
     (if iy \<le> ROWS then cube_rows ix (iy + 1) (meshes @ [(ix, iy)]) else meshes)"
  by pat_completeness auto
termination
  by (relation "measure (\<lambda>(ix, iy, m). nat (ROWS + 1 - iy))") auto

function cube_columns :: "int \<Rightarrow> (int \<times> int) list \<Rightarrow> (int \<times> int) list" where
  "cube_columns ix meshes =
     (if ix \<le> COLS then cube_columns (ix + 1) (cube_rows ix 1 meshes) else meshes)"
  by pat_completeness auto
termination
  by (relation "measure (\<lambda>(ix, m). nat (COLS + 1 - ix))") auto

declare cube_rows.simps [simp del] cube_columns.simps [simp del]

definition pickMeshes :: "userData list" where
  "pickMeshes = map (\<lambda>(ix, iy). Cube ix iy) (cube_columns 1 []) @ [MachinePanel]"

record 'm hit =
  hit_object :: 'm
  faces_front :: bool
  faces_right :: bool

definition onClick :: "userData hit list \<Rightarrow> sys_state \<Rightarrow> sys_state" where
  "onClick hits s =
     (if isSystemBusy s then s
      else
        (case hits of
           [] \<Rightarrow> s
         | h # rest \<Rightarrow>
             (case hit_object h of
                MachinePanel \<Rightarrow> s\<lparr>alerts := alerts s @ [''You clicked the Main Control Panel!'']\<rparr>
              | Cube x y \<Rightarrow>
                  if faces_front h then sendClick x y (animateIndicatorToPosition x y s)
                  else if x = COLS \<and> faces_right h
                  then sendClick 7 y (animateIndicatorToPosition 7 y s)
                  else s)))"

record home_reply =
  home_http_ok :: bool
  home_ok :: bool
  home_error :: "string option"
  home_message :: "string option"

definition btnHome_click :: "sys_state \<Rightarrow> sys_state" where
  "btnHome_click s =
     (if isSystemBusy s then s
      else
        (let s1 = animateIndicatorToHomePosition s;
             s2 = s1\<lparr>statusEl := ''Sending: AGV HOME (1001) ...''\<rparr>;
             s3 = updateSystemBusyStatus True ''sending the AGV HOME command...'' s2;
             s4 = s3\<lparr>currentClickX := JStr ''home'', currentClickY := JStr ''home''\<rparr>
         in fetch PostAgvHome s4))"

definition btnHome_settled :: "home_reply fetched \<Rightarrow> sys_state \<Rightarrow> sys_state" where
  "btnHome_settled r s =
     (case r of
        Replied d \<Rightarrow>
          if \<not> home_http_ok d \<or> \<not> home_ok d
          then
            (let msg = str_or (home_error d) (str_or (home_message d) ''AGV HOME failed'');
                 s1 = s\<lparr>statusEl := ''<span class=err>Error: '' @ msg @ ''</span>''\<rparr>;
                 s2 = updateSystemBusyStatus False msg s1
             in stopPollingSystemStatus s2)
          else
            startPollingSystemStatus
              (s\<lparr>statusEl := ''Status: <span class=ok>HOME sent</span>, waiting for completion...''\<rparr>)
      | Failed msg \<Rightarrow>
          (let s1 = s\<lparr>statusEl := ''Status: <span class=err>Request failed: '' @ msg @ ''</span>''\<rparr>;
               s2 = updateSystemBusyStatus False (''Request failed: '' @ msg) s1
           in stopPollingSystemStatus s2))"

subsection \<open>Patrol steps\<close>

text \<open>
  \<open>startPatrol\<close> is entered from the patrol button. Its guard refuses a patrol while the
  system is busy. Past the guard it walks the waypoints of \<open>patrol_rounds\<close>; the body of
  its innermost loop, up to the \<open>await\<close>, is \<open>patrol_step\<close>. The function goes on to the
  next waypoint only when the promise of the step has been resolved (and the settling
  delay has passed). Its other statements write the status element and the button.
\<close>

definition startPatrol_guard :: "sys_state \<Rightarrow> sys_state" where
  "startPatrol_guard s =
     (if isSystemBusy s
      then s\<lparr>alerts := alerts s
                @ [''The system is busy. Wait for the current operation before starting a patrol.'']\<rparr>
      else s)"

definition patrol_step :: "nat \<Rightarrow> int \<Rightarrow> int \<Rightarrow> int \<Rightarrow> int \<Rightarrow> sys_state \<Rightarrow> sys_state" where
  "patrol_step resolve rnd repeatTimes x y s =
     (let s1 = s\<lparr>statusEl := ''<span>Patrolling (round '' @ show_int rnd @ ''/''
                     @ show_int repeatTimes @ ''): AGV position '' @ show_int x
                     @ '', track position '' @ show_int y @ '' ...</span>''\<rparr>;
          s2 = animateIndicatorToPosition x y s1
      in dispatchClickAndWait resolve x y s2)"

subsection \<open>Runs of the capture and patrol revision\<close>

text \<open>
  Every callback the script registers, as one event. The order of the events is not
  constrained: a response may arrive at any time, also after the poller that asked for
  it has been stopped.
\<close>

datatype event =
    Click "userData hit list"
  | ClickSettled "click_reply fetched"
  | PatrolRequested
  | PatrolStep nat int int int int
  | HomeClick
  | HomeSettled "home_reply fetched"
  | IntervalFires
  | PageLoadPoll
  | PollSettled "status_summary fetched"
  | CaptureSettled "capture_reply fetched"
  | IndicatorSettled "status_summary fetched"

fun handle :: "event \<Rightarrow> sys_state \<Rightarrow> sys_state" where
  "handle (Click hits) s = onClick hits s"
| "handle (ClickSettled r) s = sendClick_settled r s"
| "handle PatrolRequested s = startPatrol_guard s"
| "handle (PatrolStep resolve rnd repeatTimes x y) s = patrol_step resolve rnd repeatTimes x y s"
| "handle HomeClick s = btnHome_click s"
| "handle (HomeSettled r) s = btnHome_settled r s"
| "handle IntervalFires s = interval_fires s"
| "handle PageLoadPoll s = pollSystemStatus s"
| "handle (PollSettled r) s = pollSystemStatus_settled r s"
| "handle (CaptureSettled r) s = triggerCapture_settled r s"
| "handle (IndicatorSettled r) s = initializeIndicatorPosition_settled r s"

inductive reachable :: "sys_state \<Rightarrow> bool" where
  initial: "reachable initial_state"
| after: "reachable s \<Longrightarrow> reachable (handle e s)"

subsection \<open>The revision of part_000\<close>

text \<open>
  This revision has the variables \<open>isSystemBusy\<close> and \<open>systemPollingIntervalId\<close> only;
  its functions act on the same record and leave the other fields alone.
\<close>

definition updateSystemBusyStatus_p000 :: "bool \<Rightarrow> string \<Rightarrow> sys_state \<Rightarrow> sys_state" where
  "updateSystemBusyStatus_p000 busy message s =
     (let s1 = s\<lparr>isSystemBusy := busy\<rparr> in
      if isSystemBusy s1
      then hideHover
             (s1\<lparr>statusEl := ''<span class=err>System busy: ''
                     @ str_or (Some message) ''the previous job has not finished''
                     @ '', please wait.</span>''\<rparr>)
      else if includes_str (statusEl s1) ''System busy'' \<or> includes_str (statusEl s1) ''Error''
      then s1\<lparr>statusEl := ''<span class=ok>System ready: ''
                     @ str_or (Some message) ''click a cube to send a new command.''
                     @ ''</span>''\<rparr>
      else s1)"

definition stopPollingSystemStatus_p000 :: "sys_state \<Rightarrow> sys_state" where
  "stopPollingSystemStatus_p000 s =
     (case systemPollingIntervalId s of
        None \<Rightarrow> s
      | Some h \<Rightarrow> (clearInterval h s)\<lparr>systemPollingIntervalId := None\<rparr>)"

definition pollSystemStatus_p000_settled ::
    "status_summary fetched \<Rightarrow> sys_state \<Rightarrow> sys_state" where
  "pollSystemStatus_p000_settled r s =
     (case r of
        Replied data \<Rightarrow>
          (case system_busy data of
             Some busy \<Rightarrow>
               if http_ok data
               then
                 (if busy
                  then updateSystemBusyStatus_p000 True
                         (str_or (details_message data) ''running...'') s
                  else stopPollingSystemStatus_p000
                         (updateSystemBusyStatus_p000 False ''task finished'' s))
               else updateSystemBusyStatus_p000 True
                      (str_or (error_text data) ''Server could not get the system status.'') s
           | None \<Rightarrow>
               updateSystemBusyStatus_p000 True
                 (str_or (error_text data) ''Server could not get the system status.'') s)
      | Failed msg \<Rightarrow>
          updateSystemBusyStatus_p000 True (''Communication error: '' @ msg) s)"

definition startPollingSystemStatus_p000 :: "sys_state \<Rightarrow> sys_state" where
  "startPollingSystemStatus_p000 s =
     (if systemPollingIntervalId s = None
      then
        (let s1 = pollSystemStatus s;
             (h, s2) = setInterval s1
         in s2\<lparr>systemPollingIntervalId := Some h\<rparr>)
      else s)"

subsection \<open>The AGV revision (static/app.js)\<close>

text \<open>
  The variables of the first script of \<open>static/app.js\<close>. Its handlers write the status
  element and read it only to choose what to write there, so the element, and the
  message texts that only feed it, are not part of this state.
\<close>

record agv_state = browser +
  isAgvBusy :: bool
  agvPollingIntervalId :: "nat option"
  currentAgvTaskNumber :: jv

definition initial_agv_state :: agv_state where
  "initial_agv_state =
     \<lparr>timers = [], nextTimer = 1, requests = [],
      isAgvBusy = False, agvPollingIntervalId = None, currentAgvTaskNumber = JNull\<rparr>"

record agv_task =
  task_taskNumber :: jv
  task_status :: string

record agv_raw_status =
  raw_status :: "string option"
  raw_task :: "agv_task option"

record agv_summary =
  agv_http_ok :: bool
  agv_busy :: "bool option"
  agv_raw :: "agv_raw_status option"

definition startPollingAgvStatus :: "jv \<Rightarrow> agv_state \<Rightarrow> agv_state" where
  "startPollingAgvStatus taskNumber a =
     (if agvPollingIntervalId a = None
      then
        (let (h, a1) = setInterval a
         in a1\<lparr>agvPollingIntervalId := Some h, currentAgvTaskNumber := taskNumber\<rparr>)
      else a)"

definition stopPollingAgvStatus :: "agv_state \<Rightarrow> agv_state" where
  "stopPollingAgvStatus a =
     (case agvPollingIntervalId a of
        None \<Rightarrow> a
      | Some h \<Rightarrow>
          (clearInterval h a)\<lparr>agvPollingIntervalId := None, currentAgvTaskNumber := JNull\<rparr>)"

definition updateAgvBusyStatus :: "bool \<Rightarrow> agv_raw_status option \<Rightarrow> agv_state \<Rightarrow> agv_state" where
  "updateAgvBusyStatus busy agvRawStatus a =
     (let a1 = a\<lparr>isAgvBusy := busy\<rparr> in
      if isAgvBusy a1 then a1
      else
        (case agvRawStatus of
           None \<Rightarrow> a1
         | Some raw \<Rightarrow>
             if raw_status raw = Some ''WAITING'' \<or> raw_status raw = Some ''CHARGING''
                \<or> raw_status raw = Some ''IDLE''
             then stopPollingAgvStatus a1
             else a1))"

text \<open>\<open>data.agv_raw_status?.task\<close>, and \<open>data.agv_raw_status?.task?.taskNumber\<close>.\<close>

definition reported_task :: "agv_summary \<Rightarrow> agv_task option" where
  "reported_task data = (case agv_raw data of None \<Rightarrow> None | Some raw \<Rightarrow> raw_task raw)"

definition reported_taskNumber :: "agv_summary \<Rightarrow> jv" where
  "reported_taskNumber data =
     (case reported_task data of None \<Rightarrow> JUndef | Some t \<Rightarrow> task_taskNumber t)"

definition pollAgvStatus :: "agv_state \<Rightarrow> agv_state" where
  "pollAgvStatus a = fetch GetStatusSummary a"

definition pollAgvStatus_settled :: "agv_summary fetched \<Rightarrow> agv_state \<Rightarrow> agv_state" where
  "pollAgvStatus_settled r a =
     (case r of
        Replied data \<Rightarrow>
          (case agv_busy data of
             Some busy \<Rightarrow>
               if agv_http_ok data
               then
                 (if \<not> busy
                  then stopPollingAgvStatus (updateAgvBusyStatus False (agv_raw data) a)
                  else
                    (let a1 = updateAgvBusyStatus busy (agv_raw data) a in
                     if truthy (currentAgvTaskNumber a1)
                        \<and> reported_taskNumber data = currentAgvTaskNumber a1
                     then
                       (case reported_task data of
                          None \<Rightarrow> a1
                        | Some t \<Rightarrow>
                            if task_status t = ''COMPLETED'' \<or> task_status t = ''FAILED''
                               \<or> task_status t = ''CANCELLED''
                            then stopPollingAgvStatus a1
                            else a1)
                     else if truthy (currentAgvTaskNumber a1) \<and> reported_task data = None
                     then stopPollingAgvStatus a1
                     else a1))
               else updateAgvBusyStatus True None a
           | None \<Rightarrow> updateAgvBusyStatus True None a)
      | Failed msg \<Rightarrow> updateAgvBusyStatus True None a)"

definition agv_interval_fires :: "agv_state \<Rightarrow> agv_state" where
  "agv_interval_fires a = (if timers a = [] then a else pollAgvStatus a)"

record agv_result =
  res_busy :: bool
  res_noop :: bool
  res_taskNumber :: jv

text \<open>The body of the response to \<open>/click\<close>. This revision never reads \<open>resp.ok\<close>;
  the field is kept to say what the server answered.\<close>

record click_reply_agv =
  d_http_ok :: bool
  d_ok :: bool
  d_agv_result :: "agv_result option"

definition sendClick_agv :: "int \<Rightarrow> int \<Rightarrow> agv_state \<Rightarrow> agv_state" where
  "sendClick_agv x y a =
     (if isAgvBusy a then a
      else fetch (PostClick x y) (updateAgvBusyStatus True None a))"

definition sendClick_agv_settled :: "click_reply_agv fetched \<Rightarrow> agv_state \<Rightarrow> agv_state" where
  "sendClick_agv_settled r a =
     (case r of
        Replied d \<Rightarrow>
          if (case d_agv_result d of None \<Rightarrow> False | Some res \<Rightarrow> res_busy res)
          then stopPollingAgvStatus (updateAgvBusyStatus True None a)
          else if \<not> d_ok d
          then stopPollingAgvStatus (updateAgvBusyStatus True None a)
          else if (case d_agv_result d of None \<Rightarrow> False | Some res \<Rightarrow> res_noop res)
          then startPollingAgvStatus JNull (updateAgvBusyStatus True None a)
          else startPollingAgvStatus
                 (case d_agv_result d of None \<Rightarrow> JNull | Some res \<Rightarrow> res_taskNumber res)
                 (updateAgvBusyStatus True None a)
      | Failed msg \<Rightarrow> stopPollingAgvStatus (updateAgvBusyStatus True None a))"

text \<open>This revision's \<open>pickMeshes\<close> holds the cubes only.\<close>

definition pickMeshes_agv :: "(int \<times> int) list" where
  "pickMeshes_agv = cube_columns 1 []"

definition onClick_agv :: "(int \<times> int) hit list \<Rightarrow> agv_state \<Rightarrow> agv_state" where
  "onClick_agv hits a =
     (if isAgvBusy a then a
      else
        (case hits of
           [] \<Rightarrow> a
         | h # rest \<Rightarrow>
             (case hit_object h of
                (x, y) \<Rightarrow>
                  if faces_front h then sendClick_agv x y a
                  else if x = COLS \<and> faces_right h then sendClick_agv 7 y a
                  else a)))"

record home_reply_agv =
  hr_http_ok :: bool
  hr_ok :: bool
  hr_error :: "string option"
  hr_message :: "string option"
  hr_noop :: bool
  hr_taskNumber :: jv

definition btnHome_click_agv :: "agv_state \<Rightarrow> agv_state" where
  "btnHome_click_agv a =
     (if isAgvBusy a then a
      else fetch (PostSendTask ''1001'') (updateAgvBusyStatus True None a))"

definition btnHome_agv_settled :: "home_reply_agv fetched \<Rightarrow> agv_state \<Rightarrow> agv_state" where
  "btnHome_agv_settled r a =
     (case r of
        Replied d \<Rightarrow>
          if \<not> hr_http_ok d \<or> \<not> hr_ok d
          then
            (let msg = str_or (hr_error d) (str_or (hr_message d) ''AGV HOME failed'') in
             if includes_str msg ''already the target''
             then startPollingAgvStatus JNull (updateAgvBusyStatus True None a)
             else stopPollingAgvStatus (updateAgvBusyStatus True None a))
          else if hr_noop d
                  \<or> (case hr_message d of
                        None \<Rightarrow> False
                      | Some m \<Rightarrow> m \<noteq> [] \<and> includes_str m ''already the target'')
          then startPollingAgvStatus JNull (updateAgvBusyStatus True None a)
          else startPollingAgvStatus
                 (if truthy (hr_taskNumber d) then hr_taskNumber d else JNull)
                 (updateAgvBusyStatus True None a)
      | Failed msg \<Rightarrow> stopPollingAgvStatus (updateAgvBusyStatus True None a))"

datatype agv_event =
    AgvClick "(int \<times> int) hit list"
  | AgvClickSettled "click_reply_agv fetched"
  | AgvHomeClick
  | AgvHomeSettled "home_reply_agv fetched"
  | AgvIntervalFires
  | AgvPageLoadPoll
  | AgvPollSettled "agv_summary fetched"

fun agv_handle :: "agv_event \<Rightarrow> agv_state \<Rightarrow> agv_state" where
  "agv_handle (AgvClick hits) a = onClick_agv hits a"
| "agv_handle (AgvClickSettled r) a = sendClick_agv_settled r a"
| "agv_handle AgvHomeClick a = btnHome_click_agv a"
| "agv_handle (AgvHomeSettled r) a = btnHome_agv_settled r a"
| "agv_handle AgvIntervalFires a = agv_interval_fires a"
| "agv_handle AgvPageLoadPoll a = pollAgvStatus a"
| "agv_handle (AgvPollSettled r) a = pollAgvStatus_settled r a"

inductive agv_reachable :: "agv_state \<Rightarrow> bool" where
  agv_initial: "agv_reachable initial_agv_state"
| agv_after: "agv_reachable a \<Longrightarrow> agv_reachable (agv_handle e a)"

section \<open>Notions the theorems use\<close>

subsection \<open>One poller\<close>

text \<open>The timers that are set are the one whose handle the script holds, or none.\<close>

definition tracked :: "nat option \<Rightarrow> nat list" where
  "tracked handle_id = (case handle_id of None \<Rightarrow> [] | Some h \<Rightarrow> [h])"

definition single_poller :: "sys_state \<Rightarrow> bool" where
  "single_poller s = (timers s = tracked (systemPollingIntervalId s))"

definition single_agv_poller :: "agv_state \<Rightarrow> bool" where
  "single_agv_poller a = (timers a = tracked (agvPollingIntervalId a))"

subsection \<open>Polls, ticks and captures\<close>

text \<open>
  A poll reports idle when its response is ok and carries \<open>system_busy: false\<close>; every
  other outcome is treated by \<open>pollSystemStatus\<close> as busy. \<open>capture_requests\<close> are the
  \<open>/capture\<close> requests among the requests issued so far. \<open>busy_tick\<close> are the events of
  a poll session before its first idle poll, \<open>idle_tick\<close> the events that may follow it.
  \<open>failing_polls\<close> is a run of interval ticks whose requests all fail, with the given
  error texts.
\<close>

definition reports_idle :: "status_summary fetched \<Rightarrow> bool" where
  "reports_idle r =
     (case r of Failed msg \<Rightarrow> False | Replied data \<Rightarrow> http_ok data \<and> system_busy data = Some False)"





definition failing_polls :: "string list \<Rightarrow> sys_state \<Rightarrow> sys_state" where
  "failing_polls msgs s =
     fold (\<lambda>msg s. pollSystemStatus_settled (Failed msg) (interval_fires s)) msgs s"

definition failing_polls_p000 :: "string list \<Rightarrow> sys_state \<Rightarrow> sys_state" where
  "failing_polls_p000 msgs s =
     fold (\<lambda>msg s. pollSystemStatus_p000_settled (Failed msg) (interval_fires s)) msgs s"

subsection \<open>Sample replies and runs\<close>

text \<open>
  Replies of the server: an accepted and a rejected click (\<open>{ok: false}\<close>), a status
  summary that reports busy or idle, one that reports a location tag. States reached from
  the initial one: \<open>step_sent\<close> is the first step of a patrol of 20 rounds (4 names the
  promise of the step) and \<open>step_accepted\<close> the same step once the server has accepted
  it; \<open>click_accepted\<close> is an accepted front-face click, \<open>right_face_click\<close> a click on
  the right face of the cube in column 6, row 3. \<open>spec_scenario\<close> is a poll session that
  reports busy twice and then idle three times.
\<close>

definition accepted :: "int \<Rightarrow> int \<Rightarrow> click_reply" where
  "accepted x y =
     \<lparr>ack_http_ok = True, ack_ok = True, ack_x = JNum x, ack_y = JNum y, ack_error = None\<rparr>"

definition rejected :: click_reply where
  "rejected =
     \<lparr>ack_http_ok = True, ack_ok = False, ack_x = JUndef, ack_y = JUndef, ack_error = None\<rparr>"

definition snapshot :: "bool \<Rightarrow> status_summary" where
  "snapshot busy =
     \<lparr>http_ok = True, system_busy = Some busy, details_message = None, error_text = None,
      location = None, task_targetTag = None\<rparr>"

definition tagged :: "string \<Rightarrow> status_summary" where
  "tagged tag =
     \<lparr>http_ok = True, system_busy = Some False, details_message = None, error_text = None,
      location = Some tag, task_targetTag = None\<rparr>"

definition agv_accepted :: click_reply_agv where
  "agv_accepted =
     \<lparr>d_http_ok = True, d_ok = True,
      d_agv_result = Some \<lparr>res_busy = False, res_noop = False, res_taskNumber = JNum 17\<rparr>\<rparr>"


definition step_sent :: sys_state where
  "step_sent = patrol_step 4 1 20 1 6 initial_state"

definition step_accepted :: sys_state where
  "step_accepted = sendClick_settled (Replied (accepted 1 6)) step_sent"

definition click_accepted :: sys_state where
  "click_accepted =
     handle (ClickSettled (Replied (accepted 1 6)))
       (handle (Click [\<lparr>hit_object = Cube 1 6, faces_front = True, faces_right = False\<rparr>])
          initial_state)"

definition agv_step_accepted :: agv_state where
  "agv_step_accepted =
     agv_handle (AgvClickSettled (Replied agv_accepted))
       (agv_handle (AgvClick [\<lparr>hit_object = (1, 6), faces_front = True, faces_right = False\<rparr>])
          initial_agv_state)"




section \<open>Theorems\<close>

subsection \<open>Patrol waypoints\<close>

lemma y_ascending_6: "y_ascending 6 [] = [6, 7, 8, 9]"
  by (simp add: y_ascending.simps TRACK_Y_POSITIONS_def)

lemma y_descending_9: "y_descending TRACK_Y_POSITIONS [] = [9, 8, 7, 6]"
  by (simp add: y_descending.simps TRACK_Y_POSITIONS_def)

lemma patrol_columns_1: "patrol_columns 1 visited = visited @ snake_round"
  by (simp add: patrol_columns.simps ySequence_def y_ascending_6 y_descending_9
      AGV_X_POSITIONS_def snake_round_def)

lemma patrol_rounds_concat:
  "patrol_rounds rnd repeatTimes visited
   = visited @ concat (replicate (nat (repeatTimes + 1 - rnd)) snake_round)"
proof (induction rnd repeatTimes visited rule: patrol_rounds.induct)
  case (1 rnd repeatTimes visited)
  show ?case
  proof (cases "rnd \<le> repeatTimes")
    case True
    have n: "nat (repeatTimes + 1 - rnd) = Suc (nat (repeatTimes + 1 - (rnd + 1)))"
      using True by simp
    have "patrol_rounds rnd repeatTimes visited
          = patrol_rounds (rnd + 1) repeatTimes (patrol_columns 1 visited)"
      using True by (subst patrol_rounds.simps) simp
    also have "\<dots> = patrol_columns 1 visited
                 @ concat (replicate (nat (repeatTimes + 1 - (rnd + 1))) snake_round)"
      using "1.IH" [OF True] .
    finally show ?thesis
      by (simp add: patrol_columns_1 n)
  next
    case False
    then show ?thesis
      by (subst patrol_rounds.simps) simp
  qed
qed

text \<open>
  C5. With \<open>AGV_X_POSITIONS = 5\<close> and \<open>TRACK_Y_POSITIONS = 9\<close>, one round of the
  patrol visits the columns 1 to 5 in increasing order, with the rows 6,7,8,9 in an odd
  column and 9,8,7,6 in an even one: 20 waypoints. A patrol of N rounds visits that
  list N times in a row.
\<close>

theorem patrol_waypoints_snake:
  "patrol_columns 1 [] = snake_round
   \<and> map ySequence [1, 2, 3, 4, 5] = [[6,7,8,9], [9,8,7,6], [6,7,8,9], [9,8,7,6], [6,7,8,9]]
   \<and> length (patrol_columns 1 []) = 20
   \<and> patrol_waypoints (int N) = concat (replicate N (patrol_columns 1 []))"
proof -
  have a: "patrol_columns 1 [] = snake_round"
    using patrol_columns_1 [of "[]"] by simp
  have b: "map ySequence [1, 2, 3, 4, 5]
           = [[6,7,8,9], [9,8,7,6], [6,7,8,9], [9,8,7,6], [6,7,8,9]]"
    by (simp add: ySequence_def y_ascending_6 y_descending_9)
  have c: "length snake_round = 20"
    by (simp add: snake_round_def)
  have d: "patrol_waypoints (int N) = concat (replicate N snake_round)"
    by (simp add: patrol_waypoints_def patrol_rounds_concat)
  show ?thesis using a b c d by simp
qed

subsection \<open>What the basic operations change\<close>

lemma update_fields [simp]:
  "isSystemBusy (updateSystemBusyStatus b m s) = b"
  "wasSystemBusy (updateSystemBusyStatus b m s) = wasSystemBusy s"
  "timers (updateSystemBusyStatus b m s) = timers s"
  "nextTimer (updateSystemBusyStatus b m s) = nextTimer s"
  "requests (updateSystemBusyStatus b m s) = requests s"
  "systemPollingIntervalId (updateSystemBusyStatus b m s) = systemPollingIntervalId s"
  "patrolResolveFunction (updateSystemBusyStatus b m s) = patrolResolveFunction s"
  "resolveCalls (updateSystemBusyStatus b m s) = resolveCalls s"
  "currentClickX (updateSystemBusyStatus b m s) = currentClickX s"
  "currentClickY (updateSystemBusyStatus b m s) = currentClickY s"
  by (simp_all add: updateSystemBusyStatus_def hideHover_def Let_def)

lemma update_status:
  "statusEl (updateSystemBusyStatus True m s)
   = ''<span class=err>System busy: '' @ str_or (Some m) ''the previous job has not finished''
     @ '', please wait.</span>''"
  "statusEl (updateSystemBusyStatus False m s)
   = ''<span class=ok>System ready: '' @ str_or (Some m) ''click a cube to send a new command.''
     @ ''</span>''"
  by (simp_all add: updateSystemBusyStatus_def hideHover_def Let_def)

lemma capture_fields [simp]:
  "isSystemBusy (triggerCapture s) = isSystemBusy s"
  "wasSystemBusy (triggerCapture s) = wasSystemBusy s"
  "timers (triggerCapture s) = timers s"
  "nextTimer (triggerCapture s) = nextTimer s"
  "requests (triggerCapture s) = requests s @ [PostCapture (currentClickX s) (currentClickY s)]"
  "systemPollingIntervalId (triggerCapture s) = systemPollingIntervalId s"
  "patrolResolveFunction (triggerCapture s) = patrolResolveFunction s"
  "resolveCalls (triggerCapture s) = resolveCalls s"
  "currentClickX (triggerCapture s) = currentClickX s"
  "currentClickY (triggerCapture s) = currentClickY s"
  by (simp_all add: triggerCapture_def fetch_def)

lemma poll_fields [simp]:
  "isSystemBusy (pollSystemStatus s) = isSystemBusy s"
  "wasSystemBusy (pollSystemStatus s) = wasSystemBusy s"
  "timers (pollSystemStatus s) = timers s"
  "nextTimer (pollSystemStatus s) = nextTimer s"
  "requests (pollSystemStatus s) = requests s @ [GetStatusSummary]"
  "systemPollingIntervalId (pollSystemStatus s) = systemPollingIntervalId s"
  "patrolResolveFunction (pollSystemStatus s) = patrolResolveFunction s"
  "resolveCalls (pollSystemStatus s) = resolveCalls s"
  "currentClickX (pollSystemStatus s) = currentClickX s"
  "currentClickY (pollSystemStatus s) = currentClickY s"
  by (simp_all add: pollSystemStatus_def fetch_def)

lemma stop_fields [simp]:
  "isSystemBusy (stopPollingSystemStatus s) = isSystemBusy s"
  "wasSystemBusy (stopPollingSystemStatus s) = wasSystemBusy s"
  "nextTimer (stopPollingSystemStatus s) = nextTimer s"
  "requests (stopPollingSystemStatus s) = requests s"
  "systemPollingIntervalId (stopPollingSystemStatus s) = None"
  "currentClickX (stopPollingSystemStatus s) = currentClickX s"
  "currentClickY (stopPollingSystemStatus s) = currentClickY s"
  "statusEl (stopPollingSystemStatus s) = statusEl s"
  by (simp_all add: stopPollingSystemStatus_def clearInterval_def Let_def
      split: option.splits)

lemma stop_timers:
  "timers (stopPollingSystemStatus s)
   = (case systemPollingIntervalId s of None \<Rightarrow> timers s | Some h \<Rightarrow> removeAll h (timers s))"
  by (simp add: stopPollingSystemStatus_def clearInterval_def Let_def split: option.splits)

lemma stop_waiter:
  "patrolResolveFunction (stopPollingSystemStatus s)
   = (case systemPollingIntervalId s of None \<Rightarrow> patrolResolveFunction s | Some h \<Rightarrow> None)"
  "resolveCalls (stopPollingSystemStatus s)
   = (case systemPollingIntervalId s of
        None \<Rightarrow> resolveCalls s
      | Some h \<Rightarrow> resolveCalls s
          @ (case patrolResolveFunction s of None \<Rightarrow> [] | Some k \<Rightarrow> [k]))"
  by (simp_all add: stopPollingSystemStatus_def clearInterval_def Let_def
      split: option.splits)

lemma stop_idle: "systemPollingIntervalId s = None \<Longrightarrow> stopPollingSystemStatus s = s"
  by (simp add: stopPollingSystemStatus_def)

lemma start_fields [simp]:
  "isSystemBusy (startPollingSystemStatus s) = isSystemBusy s"
  "patrolResolveFunction (startPollingSystemStatus s) = patrolResolveFunction s"
  "resolveCalls (startPollingSystemStatus s) = resolveCalls s"
  "currentClickX (startPollingSystemStatus s) = currentClickX s"
  "currentClickY (startPollingSystemStatus s) = currentClickY s"
  "statusEl (startPollingSystemStatus s) = statusEl s"
  by (simp_all add: startPollingSystemStatus_def setInterval_def pollSystemStatus_def
      fetch_def Let_def)

lemma start_active: "systemPollingIntervalId s \<noteq> None \<Longrightarrow> startPollingSystemStatus s = s"
  by (cases "systemPollingIntervalId s") (simp_all add: startPollingSystemStatus_def)

lemma start_idle:
  assumes "systemPollingIntervalId s = None"
  shows "systemPollingIntervalId (startPollingSystemStatus s) = Some (nextTimer s)"
    and "timers (startPollingSystemStatus s) = timers s @ [nextTimer s]"
    and "nextTimer (startPollingSystemStatus s) = Suc (nextTimer s)"
    and "wasSystemBusy (startPollingSystemStatus s) = True"
    and "requests (startPollingSystemStatus s) = requests s @ [GetStatusSummary]"
  using assms
  by (simp_all add: startPollingSystemStatus_def setInterval_def pollSystemStatus_def
      fetch_def Let_def)

subsection \<open>Dispatch while busy\<close>

text \<open>
  C6. A dispatch attempted while the busy flag is set does nothing: \<open>sendClick\<close> returns
  the state it was given, so no request is added to \<open>requests\<close> (the click endpoint is
  not called), and the busy flag, the interval handle and the timers are as before. The
  function has no failing branch: the guard logs and returns. The same holds for the click
  handler, and for both in the AGV revision.
\<close>

theorem busy_dispatch_is_noop:
  "(isSystemBusy s \<longrightarrow> sendClick x y s = s \<and> onClick hits s = s)
   \<and> (isAgvBusy a \<longrightarrow> sendClick_agv x y a = a \<and> onClick_agv hits' a = a)"
  by (simp add: sendClick_def onClick_def sendClick_agv_def onClick_agv_def)

theorem busy_dispatch_is_noop_witness:
  "isSystemBusy (sendClick 1 6 initial_state)
   \<and> sendClick 7 3 (sendClick 1 6 initial_state) = sendClick 1 6 initial_state
   \<and> requests (sendClick 7 3 (sendClick 1 6 initial_state)) = [PostClick 1 6]
   \<and> isAgvBusy (sendClick_agv 1 6 initial_agv_state)
   \<and> sendClick_agv 7 3 (sendClick_agv 1 6 initial_agv_state) = sendClick_agv 1 6 initial_agv_state"
proof -
  have b: "isSystemBusy (sendClick 1 6 initial_state)"
    by (simp add: sendClick_def initial_state_def Let_def fetch_def)
  have r: "requests (sendClick 1 6 initial_state) = [PostClick 1 6]"
    by (simp add: sendClick_def initial_state_def Let_def fetch_def)
  have b': "isAgvBusy (sendClick_agv 1 6 initial_agv_state)"
    by (simp add: sendClick_agv_def initial_agv_state_def updateAgvBusyStatus_def Let_def fetch_def)
  show ?thesis
    using busy_dispatch_is_noop [of "sendClick 1 6 initial_state" 7 3 "[]"
        "sendClick_agv 1 6 initial_agv_state" "[]"] b r b'
    by simp
qed

subsection \<open>Stopping the poller and the patrol waiter\<close>

text \<open>
  C10. \<open>stopPollingSystemStatus\<close> with no interval handle changes nothing: a registered
  \<open>patrolResolveFunction\<close> is neither called nor cleared. With a handle \<open>h\<close> it clears
  the timer and the handle, calls the registered resolve function once and clears it.
  A call of the resolve function therefore implies that a handle was set.
\<close>

theorem stop_resolves_waiter_only_when_polling:
  "(systemPollingIntervalId s = None \<longrightarrow>
      stopPollingSystemStatus s = s
      \<and> patrolResolveFunction (stopPollingSystemStatus s) = patrolResolveFunction s
      \<and> resolveCalls (stopPollingSystemStatus s) = resolveCalls s)
   \<and> (systemPollingIntervalId s = Some h \<longrightarrow>
        systemPollingIntervalId (stopPollingSystemStatus s) = None
        \<and> timers (stopPollingSystemStatus s) = removeAll h (timers s)
        \<and> patrolResolveFunction (stopPollingSystemStatus s) = None
        \<and> resolveCalls (stopPollingSystemStatus s)
            = resolveCalls s @ (case patrolResolveFunction s of None \<Rightarrow> [] | Some k \<Rightarrow> [k]))
   \<and> (resolveCalls (stopPollingSystemStatus s) \<noteq> resolveCalls s \<longrightarrow>
        systemPollingIntervalId s \<noteq> None)"
  by (simp add: stop_idle stop_timers stop_waiter split: option.splits)

lemma step_sent_fields:
  "systemPollingIntervalId step_sent = None"
  "patrolResolveFunction step_sent = Some 4"
  "resolveCalls step_sent = []"
  "timers step_sent = []"
  "nextTimer step_sent = 1"
  "isSystemBusy step_sent = True"
  "requests step_sent = [PostClick 1 6]"
  "currentClickX step_sent = JNum 1"
  "currentClickY step_sent = JNum 6"
  by (simp_all add: step_sent_def patrol_step_def animateIndicatorToPosition_def
      dispatchClickAndWait_def sendClick_def initial_state_def Let_def fetch_def)

lemma step_accepted_fields:
  "systemPollingIntervalId step_accepted = Some 1"
  "patrolResolveFunction step_accepted = Some 4"
  "resolveCalls step_accepted = []"
  "timers step_accepted = [1]"
  "isSystemBusy step_accepted = True"
  "wasSystemBusy step_accepted = True"
  "requests step_accepted = [PostClick 1 6, GetStatusSummary]"
  "currentClickX step_accepted = JNum 1"
  "currentClickY step_accepted = JNum 6"
  by (simp_all add: step_accepted_def sendClick_settled_def accepted_def start_idle
      step_sent_fields)

theorem stop_resolves_waiter_only_when_polling_witness:
  "systemPollingIntervalId step_sent = None
   \<and> stopPollingSystemStatus step_sent = step_sent
   \<and> patrolResolveFunction (stopPollingSystemStatus step_sent) = Some 4
   \<and> resolveCalls (stopPollingSystemStatus step_sent) = []
   \<and> systemPollingIntervalId step_accepted = Some 1
   \<and> systemPollingIntervalId (stopPollingSystemStatus step_accepted) = None
   \<and> timers (stopPollingSystemStatus step_accepted) = []
   \<and> patrolResolveFunction (stopPollingSystemStatus step_accepted) = None
   \<and> resolveCalls (stopPollingSystemStatus step_accepted) = [4]"
  using stop_resolves_waiter_only_when_polling [of step_sent 1]
    stop_resolves_waiter_only_when_polling [of step_accepted 1]
  by (simp add: step_sent_fields step_accepted_fields)

subsection \<open>Failed polls\<close>

lemma update_p000_busy:
  "isSystemBusy (updateSystemBusyStatus_p000 True m s) = True"
  "timers (updateSystemBusyStatus_p000 True m s) = timers s"
  "requests (updateSystemBusyStatus_p000 True m s) = requests s"
  "systemPollingIntervalId (updateSystemBusyStatus_p000 True m s) = systemPollingIntervalId s"
  "statusEl (updateSystemBusyStatus_p000 True m s)
   = ''<span class=err>System busy: '' @ str_or (Some m) ''the previous job has not finished''
     @ '', please wait.</span>''"
  by (simp_all add: updateSystemBusyStatus_p000_def hideHover_def Let_def)

lemma interval_fires_fields [simp]:
  "isSystemBusy (interval_fires s) = isSystemBusy s"
  "wasSystemBusy (interval_fires s) = wasSystemBusy s"
  "timers (interval_fires s) = timers s"
  "systemPollingIntervalId (interval_fires s) = systemPollingIntervalId s"
  "patrolResolveFunction (interval_fires s) = patrolResolveFunction s"
  "resolveCalls (interval_fires s) = resolveCalls s"
  "currentClickX (interval_fires s) = currentClickX s"
  "currentClickY (interval_fires s) = currentClickY s"
  "requests (interval_fires s)
   = requests s @ (if timers s = [] then [] else [GetStatusSummary])"
  by (simp_all add: interval_fires_def)

lemma failed_poll:
  "isSystemBusy (pollSystemStatus_settled (Failed msg) s) = True"
  "wasSystemBusy (pollSystemStatus_settled (Failed msg) s) = True"
  "timers (pollSystemStatus_settled (Failed msg) s) = timers s"
  "requests (pollSystemStatus_settled (Failed msg) s) = requests s"
  "systemPollingIntervalId (pollSystemStatus_settled (Failed msg) s) = systemPollingIntervalId s"
  "patrolResolveFunction (pollSystemStatus_settled (Failed msg) s) = patrolResolveFunction s"
  "resolveCalls (pollSystemStatus_settled (Failed msg) s) = resolveCalls s"
  "statusEl (pollSystemStatus_settled (Failed msg) s)
   = ''<span class=err>System busy: Communication error: '' @ msg @ '', please wait.</span>''"
  by (simp_all add: pollSystemStatus_settled_def Let_def update_status)

lemma failed_poll_p000:
  "isSystemBusy (pollSystemStatus_p000_settled (Failed msg) s) = True"
  "timers (pollSystemStatus_p000_settled (Failed msg) s) = timers s"
  "requests (pollSystemStatus_p000_settled (Failed msg) s) = requests s"
  "systemPollingIntervalId (pollSystemStatus_p000_settled (Failed msg) s)
   = systemPollingIntervalId s"
  "statusEl (pollSystemStatus_p000_settled (Failed msg) s)
   = ''<span class=err>System busy: Communication error: '' @ msg @ '', please wait.</span>''"
  by (simp_all add: pollSystemStatus_p000_settled_def update_p000_busy)

lemma failing_polls_fields:
  "systemPollingIntervalId (failing_polls msgs s) = systemPollingIntervalId s
   \<and> timers (failing_polls msgs s) = timers s
   \<and> requests (failing_polls msgs s)
       = requests s @ replicate (if timers s = [] then 0 else length msgs) GetStatusSummary"
proof (induction msgs arbitrary: s)
  case Nil
  show ?case by (simp add: failing_polls_def)
next
  case (Cons msg msgs)
  let ?s1 = "pollSystemStatus_settled (Failed msg) (interval_fires s)"
  have step: "failing_polls (msg # msgs) s = failing_polls msgs ?s1"
    by (simp add: failing_polls_def)
  have t: "timers ?s1 = timers s" and i: "systemPollingIntervalId ?s1 = systemPollingIntervalId s"
    and r: "requests ?s1 = requests s @ (if timers s = [] then [] else [GetStatusSummary])"
    by (simp_all add: failed_poll)
  show ?case
    using Cons.IH [of ?s1] by (simp add: step t i r replicate_append_same)
qed

lemma failing_polls_p000_fields:
  "systemPollingIntervalId (failing_polls_p000 msgs s) = systemPollingIntervalId s
   \<and> timers (failing_polls_p000 msgs s) = timers s
   \<and> requests (failing_polls_p000 msgs s)
       = requests s @ replicate (if timers s = [] then 0 else length msgs) GetStatusSummary"
proof (induction msgs arbitrary: s)
  case Nil
  show ?case by (simp add: failing_polls_p000_def)
next
  case (Cons msg msgs)
  let ?s1 = "pollSystemStatus_p000_settled (Failed msg) (interval_fires s)"
  have step: "failing_polls_p000 (msg # msgs) s = failing_polls_p000 msgs ?s1"
    by (simp add: failing_polls_p000_def)
  have t: "timers ?s1 = timers s" and i: "systemPollingIntervalId ?s1 = systemPollingIntervalId s"
    and r: "requests ?s1 = requests s @ (if timers s = [] then [] else [GetStatusSummary])"
    by (simp_all add: failed_poll_p000)
  show ?case
    using Cons.IH [of ?s1] by (simp add: step t i r replicate_append_same)
qed

text \<open>
  C7. A poll whose request or parse fails sets the busy flag, shows the error in the busy
  message, and leaves the interval handle and the timers as they are, in the capture and
  patrol revision and in part_000 alike. Nothing counts the failures: after any number of
  interval ticks that all fail the handle and the timers are still the same, and while a
  timer is set each tick has issued one more status request.
\<close>

theorem failed_poll_is_busy_and_keeps_polling:
  "isSystemBusy (pollSystemStatus_settled (Failed msg) s)
   \<and> statusEl (pollSystemStatus_settled (Failed msg) s)
       = ''<span class=err>System busy: Communication error: '' @ msg @ '', please wait.</span>''
   \<and> systemPollingIntervalId (pollSystemStatus_settled (Failed msg) s) = systemPollingIntervalId s
   \<and> timers (pollSystemStatus_settled (Failed msg) s) = timers s
   \<and> isSystemBusy (pollSystemStatus_p000_settled (Failed msg) s)
   \<and> statusEl (pollSystemStatus_p000_settled (Failed msg) s)
       = ''<span class=err>System busy: Communication error: '' @ msg @ '', please wait.</span>''
   \<and> systemPollingIntervalId (pollSystemStatus_p000_settled (Failed msg) s)
       = systemPollingIntervalId s
   \<and> timers (pollSystemStatus_p000_settled (Failed msg) s) = timers s
   \<and> systemPollingIntervalId (failing_polls msgs s) = systemPollingIntervalId s
   \<and> timers (failing_polls msgs s) = timers s
   \<and> requests (failing_polls msgs s)
       = requests s @ replicate (if timers s = [] then 0 else length msgs) GetStatusSummary
   \<and> systemPollingIntervalId (failing_polls_p000 msgs s) = systemPollingIntervalId s
   \<and> timers (failing_polls_p000 msgs s) = timers s
   \<and> requests (failing_polls_p000 msgs s)
       = requests s @ replicate (if timers s = [] then 0 else length msgs) GetStatusSummary"
  using failing_polls_fields [of msgs s] failing_polls_p000_fields [of msgs s]
  by (simp add: failed_poll failed_poll_p000)

subsection \<open>At most one poller\<close>

lemma single_poller_stop: "single_poller s \<Longrightarrow> single_poller (stopPollingSystemStatus s)"
  by (simp add: single_poller_def tracked_def stop_timers split: option.splits)

lemma single_poller_start: "single_poller s \<Longrightarrow> single_poller (startPollingSystemStatus s)"
  by (cases "systemPollingIntervalId s")
     (simp_all add: single_poller_def tracked_def start_idle start_active)

lemma single_poller_update:
  "single_poller (updateSystemBusyStatus b m s) = single_poller s"
  by (simp add: single_poller_def)

lemma single_poller_capture: "single_poller (triggerCapture s) = single_poller s"
  by (simp add: single_poller_def)

lemma single_poller_poll: "single_poller (pollSystemStatus s) = single_poller s"
  by (simp add: single_poller_def)

lemma single_poller_fires: "single_poller (interval_fires s) = single_poller s"
  by (simp add: single_poller_def)

lemma single_poller_fields [simp]:
  "single_poller (s\<lparr>statusEl := t\<rparr>) = single_poller s"
  "single_poller (s\<lparr>wasSystemBusy := w\<rparr>) = single_poller s"
  "single_poller (s\<lparr>currentClickX := cx\<rparr>) = single_poller s"
  "single_poller (s\<lparr>currentClickY := cy\<rparr>) = single_poller s"
  "single_poller (s\<lparr>patrolResolveFunction := p\<rparr>) = single_poller s"
  "single_poller (s\<lparr>indicatorPos := ip\<rparr>) = single_poller s"
  "single_poller (s\<lparr>indicatorTween := tw\<rparr>) = single_poller s"
  "single_poller (s\<lparr>alerts := al\<rparr>) = single_poller s"
  "single_poller (s\<lparr>requests := rq\<rparr>) = single_poller s"
  by (simp_all add: single_poller_def)

lemmas single_poller_simps =
  single_poller_update single_poller_capture single_poller_poll single_poller_fires
  single_poller_stop single_poller_start

lemma single_poller_sendClick: "single_poller (sendClick x y s) = single_poller s"
  by (simp add: sendClick_def Let_def fetch_def single_poller_simps)

lemma single_poller_sendClick_settled:
  "single_poller s \<Longrightarrow> single_poller (sendClick_settled r s)"
  by (cases r) (simp_all add: sendClick_settled_def Let_def single_poller_simps)

lemma single_poller_poll_settled:
  "single_poller s \<Longrightarrow> single_poller (pollSystemStatus_settled r s)"
  by (cases r)
     (simp_all add: pollSystemStatus_settled_def Let_def single_poller_simps split: option.splits)

lemma single_poller_home_settled:
  "single_poller s \<Longrightarrow> single_poller (btnHome_settled r s)"
  by (cases r) (simp_all add: btnHome_settled_def Let_def single_poller_simps)

lemma single_poller_handle: "single_poller s \<Longrightarrow> single_poller (handle e s)"
proof (cases e)
  case (Click hits)
  assume "single_poller s"
  then show ?thesis
    using Click
    by (simp add: onClick_def animateIndicatorToPosition_def Let_def single_poller_sendClick
        split: list.splits userData.splits)
next
  case (ClickSettled r)
  assume "single_poller s"
  then show ?thesis using ClickSettled by (simp add: single_poller_sendClick_settled)
next
  case PatrolRequested
  assume "single_poller s"
  then show ?thesis
    using PatrolRequested by (simp add: startPatrol_guard_def)
next
  case (PatrolStep k rnd n x y)
  assume "single_poller s"
  then show ?thesis
    using PatrolStep
    by (simp add: patrol_step_def dispatchClickAndWait_def animateIndicatorToPosition_def
        Let_def single_poller_sendClick)
next
  case HomeClick
  assume "single_poller s"
  then show ?thesis
    using HomeClick
    by (simp add: btnHome_click_def animateIndicatorToHomePosition_def Let_def fetch_def
        single_poller_simps)
next
  case (HomeSettled r)
  assume "single_poller s"
  then show ?thesis using HomeSettled by (simp add: single_poller_home_settled)
next
  case IntervalFires
  assume "single_poller s"
  then show ?thesis using IntervalFires by (simp add: single_poller_simps)
next
  case PageLoadPoll
  assume "single_poller s"
  then show ?thesis using PageLoadPoll by (simp add: single_poller_simps)
next
  case (PollSettled r)
  assume "single_poller s"
  then show ?thesis using PollSettled by (simp add: single_poller_poll_settled)
next
  case (CaptureSettled r)
  assume "single_poller s"
  then show ?thesis
    using CaptureSettled
    by (cases r) (simp_all add: triggerCapture_settled_def Let_def)
next
  case (IndicatorSettled r)
  assume "single_poller s"
  then show ?thesis
    using IndicatorSettled
    by (cases r)
       (simp_all add: initializeIndicatorPosition_settled_def
          split: option.splits tag_target.splits)
qed

lemma reachable_single_poller: "reachable s \<Longrightarrow> single_poller s"
proof (induction rule: reachable.induct)
  case initial
  show ?case by (simp add: single_poller_def tracked_def initial_state_def)
next
  case (after s e)
  then show ?case by (simp add: single_poller_handle)
qed

lemma agv_stop_fields [simp]:
  "isAgvBusy (stopPollingAgvStatus a) = isAgvBusy a"
  "agvPollingIntervalId (stopPollingAgvStatus a) = None"
  "requests (stopPollingAgvStatus a) = requests a"
  "timers (stopPollingAgvStatus a)
   = (case agvPollingIntervalId a of None \<Rightarrow> timers a | Some h \<Rightarrow> removeAll h (timers a))"
  by (simp_all add: stopPollingAgvStatus_def clearInterval_def split: option.splits)

lemma agv_start_active:
  "agvPollingIntervalId a \<noteq> None \<Longrightarrow> startPollingAgvStatus taskNumber a = a"
  by (cases "agvPollingIntervalId a") (simp_all add: startPollingAgvStatus_def)

lemma agv_start_idle:
  assumes "agvPollingIntervalId a = None"
  shows "agvPollingIntervalId (startPollingAgvStatus taskNumber a) = Some (nextTimer a)"
    and "timers (startPollingAgvStatus taskNumber a) = timers a @ [nextTimer a]"
    and "currentAgvTaskNumber (startPollingAgvStatus taskNumber a) = taskNumber"
    and "isAgvBusy (startPollingAgvStatus taskNumber a) = isAgvBusy a"
    and "requests (startPollingAgvStatus taskNumber a) = requests a"
  using assms by (simp_all add: startPollingAgvStatus_def setInterval_def)

lemma agv_update_busy [simp]:
  "isAgvBusy (updateAgvBusyStatus b raw a) = b"
  "requests (updateAgvBusyStatus b raw a) = requests a"
  "updateAgvBusyStatus True raw a = a\<lparr>isAgvBusy := True\<rparr>"
  by (simp_all add: updateAgvBusyStatus_def Let_def split: option.splits)

lemma single_agv_fields [simp]:
  "single_agv_poller (a\<lparr>isAgvBusy := b\<rparr>) = single_agv_poller a"
  "single_agv_poller (a\<lparr>requests := rq\<rparr>) = single_agv_poller a"
  by (simp_all add: single_agv_poller_def)

lemma single_agv_stop: "single_agv_poller a \<Longrightarrow> single_agv_poller (stopPollingAgvStatus a)"
  by (simp add: single_agv_poller_def tracked_def split: option.splits)

lemma single_agv_start:
  "single_agv_poller a \<Longrightarrow> single_agv_poller (startPollingAgvStatus taskNumber a)"
  by (cases "agvPollingIntervalId a")
     (simp_all add: single_agv_poller_def tracked_def agv_start_idle agv_start_active)

lemma single_agv_update:
  "single_agv_poller a \<Longrightarrow> single_agv_poller (updateAgvBusyStatus b raw a)"
  by (simp add: updateAgvBusyStatus_def Let_def single_agv_stop split: option.splits)

lemma single_agv_sendClick: "single_agv_poller a \<Longrightarrow> single_agv_poller (sendClick_agv x y a)"
  by (simp add: sendClick_agv_def fetch_def)

lemma single_agv_handle: "single_agv_poller a \<Longrightarrow> single_agv_poller (agv_handle e a)"
proof (cases e)
  case (AgvClick hits)
  assume "single_agv_poller a"
  then show ?thesis
    using AgvClick
    by (simp add: onClick_agv_def single_agv_sendClick split: list.splits prod.splits)
next
  case (AgvClickSettled r)
  assume "single_agv_poller a"
  then show ?thesis
    using AgvClickSettled
    by (cases r) (simp_all add: sendClick_agv_settled_def single_agv_stop single_agv_start)
next
  case AgvHomeClick
  assume "single_agv_poller a"
  then show ?thesis using AgvHomeClick by (simp add: btnHome_click_agv_def fetch_def)
next
  case (AgvHomeSettled r)
  assume "single_agv_poller a"
  then show ?thesis
    using AgvHomeSettled
    by (cases r)
       (simp_all add: btnHome_agv_settled_def Let_def single_agv_stop single_agv_start)
next
  case AgvIntervalFires
  assume "single_agv_poller a"
  then show ?thesis
    using AgvIntervalFires by (simp add: agv_interval_fires_def pollAgvStatus_def fetch_def)
next
  case AgvPageLoadPoll
  assume "single_agv_poller a"
  then show ?thesis using AgvPageLoadPoll by (simp add: pollAgvStatus_def fetch_def)
next
  case (AgvPollSettled r)
  assume "single_agv_poller a"
  then show ?thesis
    using AgvPollSettled
    by (cases r)
       (simp_all add: pollAgvStatus_settled_def Let_def single_agv_stop single_agv_update
          split: option.splits)
qed

lemma agv_reachable_single_poller: "agv_reachable a \<Longrightarrow> single_agv_poller a"
proof (induction rule: agv_reachable.induct)
  case agv_initial
  show ?case by (simp add: single_agv_poller_def tracked_def initial_agv_state_def)
next
  case (agv_after a e)
  then show ?case by (simp add: single_agv_handle)
qed

lemma tracked_at_most_one: "length (tracked i) \<le> 1 \<and> set (tracked i) = set_option i"
  by (cases i) (simp_all add: tracked_def)

text \<open>
  C1. At most one polling interval is set at any time. In every state the script can
  reach, by any sequence of its callbacks, the timers that are set are exactly the one
  whose handle the script holds, or none. Starting the poller while a handle is held
  returns the state unchanged: no second timer, no request, and (in the AGV revision) the
  tracked task number stays. Both hold in the capture and patrol revision and in the AGV
  revision of static/app.js.
\<close>

theorem at_most_one_poller:
  "(reachable s \<longrightarrow>
      length (timers s) \<le> 1 \<and> set (timers s) = set_option (systemPollingIntervalId s))
   \<and> (systemPollingIntervalId s \<noteq> None \<longrightarrow> startPollingSystemStatus s = s)
   \<and> (agv_reachable a \<longrightarrow>
        length (timers a) \<le> 1 \<and> set (timers a) = set_option (agvPollingIntervalId a))
   \<and> (agvPollingIntervalId a \<noteq> None \<longrightarrow> startPollingAgvStatus taskNumber a = a)"
proof -
  have "reachable s \<longrightarrow>
      length (timers s) \<le> 1 \<and> set (timers s) = set_option (systemPollingIntervalId s)"
    using reachable_single_poller [of s] tracked_at_most_one [of "systemPollingIntervalId s"]
    by (simp add: single_poller_def)
  moreover have "agv_reachable a \<longrightarrow>
      length (timers a) \<le> 1 \<and> set (timers a) = set_option (agvPollingIntervalId a)"
    using agv_reachable_single_poller [of a] tracked_at_most_one [of "agvPollingIntervalId a"]
    by (simp add: single_agv_poller_def)
  ultimately show ?thesis
    by (simp add: start_active agv_start_active)
qed

lemma click_accepted_fields:
  "systemPollingIntervalId click_accepted = Some 1"
  "timers click_accepted = [1]"
  "requests click_accepted = [PostClick 1 6, GetStatusSummary]"
  "isSystemBusy click_accepted = True"
  by (simp_all add: click_accepted_def onClick_def sendClick_settled_def accepted_def
      start_idle sendClick_def initial_state_def animateIndicatorToPosition_def
      Let_def fetch_def)

lemma agv_step_accepted_fields:
  "agvPollingIntervalId agv_step_accepted = Some 1"
  "timers agv_step_accepted = [1]"
  "currentAgvTaskNumber agv_step_accepted = JNum 17"
  "isAgvBusy agv_step_accepted = True"
  by (simp_all add: agv_step_accepted_def onClick_agv_def sendClick_agv_settled_def
      agv_accepted_def agv_start_idle sendClick_agv_def initial_agv_state_def fetch_def)

theorem at_most_one_poller_witness:
  "reachable click_accepted
   \<and> timers click_accepted = [1]
   \<and> systemPollingIntervalId click_accepted = Some 1
   \<and> startPollingSystemStatus click_accepted = click_accepted
   \<and> agv_reachable agv_step_accepted
   \<and> timers agv_step_accepted = [1]
   \<and> currentAgvTaskNumber (startPollingAgvStatus JNull agv_step_accepted) = JNum 17
   \<and> startPollingAgvStatus JNull agv_step_accepted = agv_step_accepted"
proof -
  have r: "reachable click_accepted"
    unfolding click_accepted_def by (intro reachable.intros)
  have r': "agv_reachable agv_step_accepted"
    unfolding agv_step_accepted_def by (intro agv_reachable.intros)
  show ?thesis
    using at_most_one_poller [of click_accepted agv_step_accepted JNull] r r'
    by (simp add: click_accepted_fields agv_step_accepted_fields)
qed

subsection \<open>Rejected dispatch\<close>



lemma rejected_settled:
  assumes "\<not> ack_http_ok d \<or> \<not> ack_ok d"
  shows "isSystemBusy (sendClick_settled (Replied d) s) = False"
    and "systemPollingIntervalId (sendClick_settled (Replied d) s) = None"
    and "requests (sendClick_settled (Replied d) s) = requests s"
    and "patrolResolveFunction (sendClick_settled (Replied d) s)
         = (case systemPollingIntervalId s of None \<Rightarrow> patrolResolveFunction s | Some h \<Rightarrow> None)"
    and "resolveCalls (sendClick_settled (Replied d) s)
         = (case systemPollingIntervalId s of
              None \<Rightarrow> resolveCalls s
            | Some h \<Rightarrow> resolveCalls s
                @ (case patrolResolveFunction s of None \<Rightarrow> [] | Some k \<Rightarrow> [k]))"
    and "statusEl (sendClick_settled (Replied d) s)
         = ''<span class=ok>System ready: the server rejected the command, please retry.</span>''"
    and "single_poller s \<Longrightarrow> timers (sendClick_settled (Replied d) s) = []"
proof -
  let ?s2 = "updateSystemBusyStatus False ''the server rejected the command, please retry.''
      (s\<lparr>statusEl := ''<span class=err>Command failed: ''
            @ str_or (ack_error d) ''unknown error'' @ ''</span>''\<rparr>)"
  have e: "sendClick_settled (Replied d) s = stopPollingSystemStatus ?s2"
    using assms by (auto simp add: sendClick_settled_def Let_def)
  show "isSystemBusy (sendClick_settled (Replied d) s) = False"
    and "systemPollingIntervalId (sendClick_settled (Replied d) s) = None"
    and "requests (sendClick_settled (Replied d) s) = requests s"
    by (simp_all add: e)
  show "patrolResolveFunction (sendClick_settled (Replied d) s)
         = (case systemPollingIntervalId s of None \<Rightarrow> patrolResolveFunction s | Some h \<Rightarrow> None)"
    by (simp add: e stop_waiter split: option.splits)
  show "resolveCalls (sendClick_settled (Replied d) s)
         = (case systemPollingIntervalId s of
              None \<Rightarrow> resolveCalls s
            | Some h \<Rightarrow> resolveCalls s
                @ (case patrolResolveFunction s of None \<Rightarrow> [] | Some k \<Rightarrow> [k]))"
    by (simp add: e stop_waiter split: option.splits)
  show "statusEl (sendClick_settled (Replied d) s)
         = ''<span class=ok>System ready: the server rejected the command, please retry.</span>''"
    by (simp add: e update_status)
  show "timers (sendClick_settled (Replied d) s) = []" if "single_poller s"
    using that by (simp add: e stop_timers single_poller_def tracked_def split: option.splits)
qed





subsection \<open>Idle and busy polls\<close>

lemma idle_settled_eq:
  assumes "http_ok data" and "system_busy data = Some False"
  shows "pollSystemStatus_settled (Replied data) s
         = (stopPollingSystemStatus
              ((if wasSystemBusy s then triggerCapture else id)
                 (updateSystemBusyStatus False (str_or (details_message data) ''running...'') s)))
           \<lparr>wasSystemBusy := False\<rparr>"
  using assms by (simp add: pollSystemStatus_settled_def Let_def)

lemma idle_settled:
  assumes "reports_idle r"
  shows "isSystemBusy (pollSystemStatus_settled r s) = False"
    and "wasSystemBusy (pollSystemStatus_settled r s) = False"
    and "systemPollingIntervalId (pollSystemStatus_settled r s) = None"
    and "requests (pollSystemStatus_settled r s)
         = requests s
           @ (if wasSystemBusy s then [PostCapture (currentClickX s) (currentClickY s)] else [])"
    and "currentClickX (pollSystemStatus_settled r s) = currentClickX s"
    and "currentClickY (pollSystemStatus_settled r s) = currentClickY s"
    and "resolveCalls (pollSystemStatus_settled r s)
         = (case systemPollingIntervalId s of
              None \<Rightarrow> resolveCalls s
            | Some h \<Rightarrow> resolveCalls s
                @ (case patrolResolveFunction s of None \<Rightarrow> [] | Some k \<Rightarrow> [k]))"
proof -
  obtain data where r: "r = Replied data" and h: "http_ok data" "system_busy data = Some False"
    using assms by (cases r) (simp_all add: reports_idle_def)
  note e = idle_settled_eq [OF h, of s]
  show "isSystemBusy (pollSystemStatus_settled r s) = False"
    and "wasSystemBusy (pollSystemStatus_settled r s) = False"
    and "systemPollingIntervalId (pollSystemStatus_settled r s) = None"
    and "requests (pollSystemStatus_settled r s)
         = requests s
           @ (if wasSystemBusy s then [PostCapture (currentClickX s) (currentClickY s)] else [])"
    and "currentClickX (pollSystemStatus_settled r s) = currentClickX s"
    and "currentClickY (pollSystemStatus_settled r s) = currentClickY s"
    unfolding r e by simp_all
  show "resolveCalls (pollSystemStatus_settled r s)
         = (case systemPollingIntervalId s of
              None \<Rightarrow> resolveCalls s
            | Some h \<Rightarrow> resolveCalls s
                @ (case patrolResolveFunction s of None \<Rightarrow> [] | Some k \<Rightarrow> [k]))"
    unfolding r e by (simp add: stop_waiter split: option.splits)
qed



lemma snapshot_idle: "reports_idle (Replied (snapshot False))" "\<not> reports_idle (Replied (snapshot True))"
  by (simp_all add: reports_idle_def snapshot_def)

subsection \<open>A rejected patrol step\<close>

text \<open>
  C4. The patrol step at waypoint (1, 6), \<open>step_sent\<close>: \<open>dispatchClickAndWait\<close>
  registers the resolve function of promise 4 and sends the click. When the server
  rejects the dispatch, or the request fails, the handler shows a message and clears the
  busy flag, but \<open>stopPollingSystemStatus\<close> finds no interval handle: the resolve
  function is not called and stays registered, so the promise \<open>startPatrol\<close> awaits is
  not resolved by this step and the patrol does not go on to the next waypoint. For
  comparison, after an accepted dispatch a failed poll keeps the waiter registered and
  the poller running, and the next poll that reports idle resolves it.
\<close>

theorem rejected_patrol_step_never_resolves:
  "patrolResolveFunction step_sent = Some 4
   \<and> \<not> isSystemBusy (sendClick_settled (Replied rejected) step_sent)
   \<and> statusEl (sendClick_settled (Replied rejected) step_sent)
       = ''<span class=ok>System ready: the server rejected the command, please retry.</span>''
   \<and> systemPollingIntervalId (sendClick_settled (Replied rejected) step_sent) = None
   \<and> timers (sendClick_settled (Replied rejected) step_sent) = []
   \<and> resolveCalls (sendClick_settled (Replied rejected) step_sent) = []
   \<and> patrolResolveFunction (sendClick_settled (Replied rejected) step_sent) = Some 4
   \<and> resolveCalls (sendClick_settled (Failed ''Failed to fetch'') step_sent) = []
   \<and> patrolResolveFunction (sendClick_settled (Failed ''Failed to fetch'') step_sent) = Some 4
   \<and> resolveCalls (pollSystemStatus_settled (Failed ''Failed to fetch'') step_accepted) = []
   \<and> timers (pollSystemStatus_settled (Failed ''Failed to fetch'') step_accepted) = [1]
   \<and> resolveCalls
        (pollSystemStatus_settled (Replied (snapshot False))
           (pollSystemStatus_settled (Failed ''Failed to fetch'') step_accepted)) = [4]"
proof -
  have n: "\<not> ack_http_ok rejected \<or> \<not> ack_ok rejected"
    by (simp add: rejected_def)
  have sp: "single_poller step_sent"
    by (simp add: single_poller_def tracked_def step_sent_fields)
  have f: "sendClick_settled (Failed ''Failed to fetch'') step_sent
           = updateSystemBusyStatus False
               ''the request failed, please check the network connection.''
               (step_sent\<lparr>statusEl :=
                  ''Status: <span class=err>Request failed: '' @ ''Failed to fetch'' @ ''</span>''\<rparr>)"
    by (simp add: sendClick_settled_def Let_def stop_idle step_sent_fields)
  have i: "resolveCalls
        (pollSystemStatus_settled (Replied (snapshot False))
           (pollSystemStatus_settled (Failed ''Failed to fetch'') step_accepted)) = [4]"
    by (simp add: idle_settled [OF snapshot_idle(1)] failed_poll step_accepted_fields)
  show ?thesis
    using rejected_settled [OF n, of step_sent] sp i
    by (simp add: step_sent_fields f failed_poll step_accepted_fields)
qed

theorem rejected_patrol_step_never_resolves_witness:
  "4 \<notin> set (resolveCalls (sendClick_settled (Replied rejected) step_sent))
   \<and> patrolResolveFunction (sendClick_settled (Replied rejected) step_sent)
       = patrolResolveFunction step_sent
   \<and> 4 \<in> set (resolveCalls
        (pollSystemStatus_settled (Replied (snapshot False))
           (pollSystemStatus_settled (Failed ''Failed to fetch'') step_accepted)))"
  using rejected_patrol_step_never_resolves by simp

subsection \<open>One capture per edge\<close>

lemma capture_settled_fields [simp]:
  "wasSystemBusy (triggerCapture_settled r s) = wasSystemBusy s"
  "requests (triggerCapture_settled r s) = requests s"
  by (cases r; simp add: triggerCapture_settled_def Let_def)+








subsection \<open>Indicator position from the location tag\<close>

lemma table_columns:
  "map_of TARGET_TAG_TO_X k = Some (TagColumn c) \<Longrightarrow> 1 \<le> c \<and> c \<le> 7"
  by (simp add: TARGET_TAG_TO_X_def split: if_splits)

lemma table_keys:
  "fst ` set TARGET_TAG_TO_X
   = {''1001'', ''1002'', ''1003'', ''1004'', ''1005'', ''1006'', ''1007'', ''1009''}"
  by (simp add: TARGET_TAG_TO_X_def)

lemma init_failed [simp]:
  "indicatorPos (initializeIndicatorPosition_settled (Failed msg) s) = homePosition"
  by (simp add: initializeIndicatorPosition_settled_def)

lemma init_replied:
  "indicatorPos (initializeIndicatorPosition_settled (Replied data) s)
   = (if \<not> http_ok data then homePosition
      else case tag_lookup (locationTag data) of
             None \<Rightarrow> homePosition
           | Some TagHome \<Rightarrow> homePosition
           | Some (TagColumn c) \<Rightarrow>
               (xPosFromIndex c, - 1/2 + INDICATOR_HEIGHT / 2, CUBE_SIZE * 2))"
  by (auto simp add: initializeIndicatorPosition_settled_def tag_lookup_def
      split: option.splits tag_target.splits dest: table_columns)

lemma lookup_unknown:
  "locationTag data = None \<or> (\<exists>k. locationTag data = Some k \<and> k \<notin> fst ` set TARGET_TAG_TO_X)
   \<Longrightarrow> tag_lookup (locationTag data) = None"
  by (auto simp add: tag_lookup_def map_of_eq_None_iff)

text \<open>
  C9. \<open>initializeIndicatorPosition\<close> places the indicator by looking the reported
  location tag up in the static table \<open>TARGET_TAG_TO_X\<close>: the result is the home position
  or the position of one of the columns 1 to 7; a tag the table maps to a column gives
  that column, the tag mapped to \<open>'home'\<close> gives home, and a tag that is missing or is
  not a key of the table gives home (as does a failed request).
\<close>

theorem unknown_tag_defaults_to_home:
  "((locationTag data = None
      \<or> (\<exists>k. locationTag data = Some k \<and> k \<notin> fst ` set TARGET_TAG_TO_X)) \<longrightarrow>
     indicatorPos (initializeIndicatorPosition_settled (Replied data) s) = homePosition)
   \<and> (http_ok data \<and> locationTag data = Some k
        \<and> map_of TARGET_TAG_TO_X k = Some (TagColumn c) \<longrightarrow>
       1 \<le> c \<and> c \<le> 7
       \<and> indicatorPos (initializeIndicatorPosition_settled (Replied data) s)
           = (xPosFromIndex c, - 1/2 + INDICATOR_HEIGHT / 2, CUBE_SIZE * 2))
   \<and> (locationTag data = Some k \<and> map_of TARGET_TAG_TO_X k = Some TagHome \<longrightarrow>
       indicatorPos (initializeIndicatorPosition_settled (Replied data) s) = homePosition)
   \<and> (indicatorPos (initializeIndicatorPosition_settled r s) = homePosition
       \<or> (\<exists>c. 1 \<le> c \<and> c \<le> 7
             \<and> indicatorPos (initializeIndicatorPosition_settled r s)
                 = (xPosFromIndex c, - 1/2 + INDICATOR_HEIGHT / 2, CUBE_SIZE * 2)))"
proof -
  have a: "(locationTag data = None
      \<or> (\<exists>k. locationTag data = Some k \<and> k \<notin> fst ` set TARGET_TAG_TO_X)) \<longrightarrow>
     indicatorPos (initializeIndicatorPosition_settled (Replied data) s) = homePosition"
    using lookup_unknown [of data] by (auto simp add: init_replied)
  have b: "http_ok data \<and> locationTag data = Some k
        \<and> map_of TARGET_TAG_TO_X k = Some (TagColumn c) \<longrightarrow>
       1 \<le> c \<and> c \<le> 7
       \<and> indicatorPos (initializeIndicatorPosition_settled (Replied data) s)
           = (xPosFromIndex c, - 1/2 + INDICATOR_HEIGHT / 2, CUBE_SIZE * 2)"
    using table_columns [of k c] by (simp add: init_replied tag_lookup_def)
  have c: "locationTag data = Some k \<and> map_of TARGET_TAG_TO_X k = Some TagHome \<longrightarrow>
       indicatorPos (initializeIndicatorPosition_settled (Replied data) s) = homePosition"
    by (simp add: init_replied tag_lookup_def)
  have d: "indicatorPos (initializeIndicatorPosition_settled r s) = homePosition
       \<or> (\<exists>c. 1 \<le> c \<and> c \<le> 7
             \<and> indicatorPos (initializeIndicatorPosition_settled r s)
                 = (xPosFromIndex c, - 1/2 + INDICATOR_HEIGHT / 2, CUBE_SIZE * 2))"
  proof (cases r)
    case (Failed msg)
    then show ?thesis by simp
  next
    case (Replied data')
    show ?thesis
      unfolding Replied init_replied tag_lookup_def
      by (auto split: option.splits tag_target.splits dest: table_columns)
  qed
  show ?thesis using a b c d by blast
qed

theorem unknown_tag_defaults_to_home_witness:
  "locationTag (tagged ''9999'') = Some ''9999''
   \<and> ''9999'' \<notin> fst ` set TARGET_TAG_TO_X
   \<and> indicatorPos (initializeIndicatorPosition_settled (Replied (tagged ''9999'')) initial_state)
       = homePosition
   \<and> locationTag (snapshot False) = None
   \<and> indicatorPos (initializeIndicatorPosition_settled (Replied (snapshot False)) initial_state)
       = homePosition
   \<and> homePosition = (- 5, 1 / 2, 2)
   \<and> map_of TARGET_TAG_TO_X ''1004'' = Some (TagColumn 3)
   \<and> indicatorPos (initializeIndicatorPosition_settled (Replied (tagged ''1004'')) initial_state)
       = (- 1 / 2, 1 / 2, 2)
   \<and> map_of TARGET_TAG_TO_X ''1001'' = Some TagHome
   \<and> indicatorPos (initializeIndicatorPosition_settled (Replied (tagged ''1001'')) initial_state)
       = homePosition"
proof -
  have t: "locationTag (tagged ''9999'') = Some ''9999''"
    "locationTag (tagged ''1004'') = Some ''1004''"
    "locationTag (tagged ''1001'') = Some ''1001''"
    "locationTag (snapshot False) = None"
    "http_ok (tagged ''1004'')"
    by (simp_all add: locationTag_def tagged_def snapshot_def)
  have u: "''9999'' \<notin> fst ` set TARGET_TAG_TO_X"
    by (simp add: table_keys)
  have m: "map_of TARGET_TAG_TO_X ''1004'' = Some (TagColumn 3)"
    "map_of TARGET_TAG_TO_X ''1001'' = Some TagHome"
    by (simp_all add: TARGET_TAG_TO_X_def)
  have h: "homePosition = (- 5, 1 / 2, 2)"
    by (simp add: homePosition_def xPosFromIndex_def COLS_def CUBE_SIZE_def INDICATOR_HEIGHT_def)
  have x: "(xPosFromIndex 3, - 1/2 + INDICATOR_HEIGHT / 2, CUBE_SIZE * 2) = (- 1 / 2, 1 / 2, 2)"
    by (simp add: xPosFromIndex_def COLS_def CUBE_SIZE_def INDICATOR_HEIGHT_def)
  show ?thesis
    using unknown_tag_defaults_to_home [of "tagged ''9999''" initial_state "''9999''" 0 "Failed []"]
      unknown_tag_defaults_to_home [of "snapshot False" initial_state "''9999''" 0 "Failed []"]
      unknown_tag_defaults_to_home [of "tagged ''1004''" initial_state "''1004''" 3 "Failed []"]
      unknown_tag_defaults_to_home [of "tagged ''1001''" initial_state "''1001''" 0 "Failed []"]
      t u m h x
    by simp
qed

subsection \<open>Coordinates dispatched by a click\<close>

lemma cube_rows_set:
  "set (cube_rows ix iy meshes) = set meshes \<union> {(ix, y) | y. iy \<le> y \<and> y \<le> ROWS}"
proof (induction ix iy meshes rule: cube_rows.induct)
  case (1 ix iy meshes)
  show ?case
  proof (cases "iy \<le> ROWS")
    case True
    have "set (cube_rows ix iy meshes) = set (cube_rows ix (iy + 1) (meshes @ [(ix, iy)]))"
      using True by (subst cube_rows.simps) simp
    also have "\<dots> = set (meshes @ [(ix, iy)]) \<union> {(ix, y) | y. iy + 1 \<le> y \<and> y \<le> ROWS}"
      using "1.IH" [OF True] .
    also have "\<dots> = set meshes \<union> {(ix, y) | y. iy \<le> y \<and> y \<le> ROWS}"
      using True by auto
    finally show ?thesis .
  next
    case False
    then show ?thesis by (subst cube_rows.simps) auto
  qed
qed

lemma cube_columns_set:
  "set (cube_columns ix meshes)
   = set meshes \<union> {(x, y) | x y. ix \<le> x \<and> x \<le> COLS \<and> 1 \<le> y \<and> y \<le> ROWS}"
proof (induction ix meshes rule: cube_columns.induct)
  case (1 ix meshes)
  show ?case
  proof (cases "ix \<le> COLS")
    case True
    have "set (cube_columns ix meshes) = set (cube_columns (ix + 1) (cube_rows ix 1 meshes))"
      using True by (subst cube_columns.simps) simp
    also have "\<dots> = set (cube_rows ix 1 meshes)
                 \<union> {(x, y) | x y. ix + 1 \<le> x \<and> x \<le> COLS \<and> 1 \<le> y \<and> y \<le> ROWS}"
      using "1.IH" [OF True] .
    also have "\<dots> = set meshes
                 \<union> {(x, y) | x y. ix \<le> x \<and> x \<le> COLS \<and> 1 \<le> y \<and> y \<le> ROWS}"
      using True by (auto simp add: cube_rows_set)
    finally show ?thesis .
  next
    case False
    then show ?thesis by (subst cube_columns.simps) auto
  qed
qed

lemma pickMeshes_agv_set:
  "(x, y) \<in> set pickMeshes_agv \<longleftrightarrow> 1 \<le> x \<and> x \<le> COLS \<and> 1 \<le> y \<and> y \<le> ROWS"
  by (simp add: pickMeshes_agv_def cube_columns_set)

lemma pickMeshes_set:
  "Cube x y \<in> set pickMeshes \<longleftrightarrow> 1 \<le> x \<and> x \<le> COLS \<and> 1 \<le> y \<and> y \<le> ROWS"
  by (auto simp add: pickMeshes_def cube_columns_set)

lemma sendClick_requests:
  "requests (sendClick x y s) = (if isSystemBusy s then requests s else requests s @ [PostClick x y])"
  by (simp add: sendClick_def Let_def fetch_def)

lemma sendClick_agv_requests:
  "requests (sendClick_agv x y a) = (if isAgvBusy a then requests a else requests a @ [PostClick x y])"
  by (simp add: sendClick_agv_def fetch_def)

lemma animate_fields [simp]:
  "requests (animateIndicatorToPosition x y s) = requests s"
  "isSystemBusy (animateIndicatorToPosition x y s) = isSystemBusy s"
  by (simp_all add: animateIndicatorToPosition_def Let_def)

text \<open>
  C8, as the claim states it, fails: a click on the right face of the cube in column 6,
  row 3 dispatches x = 7, which is not in [1, COLS], COLS being 6. The cube is one of
  \<open>pickMeshes\<close>, the state is the initial one, and the request goes out.
\<close>

theorem right_face_click_dispatches_column_7:
  "Cube 6 3 \<in> set pickMeshes
   \<and> COLS = 6
   \<and> requests
        (onClick [\<lparr>hit_object = Cube 6 3, faces_front = False, faces_right = True\<rparr>]
           initial_state)
      = [PostClick 7 3]"
  by (simp add: pickMeshes_set onClick_def sendClick_requests)
     (simp add: COLS_def ROWS_def initial_state_def)

text \<open>
  C8, amended. Every click-driven dispatch sends a coordinate with \<open>y\<close> in [1, ROWS]
  and \<open>x\<close> in [1, COLS + 1]: a click on a front face sends the cell of the cube that
  was hit, and a click on the right face of a cube of the last column sends
  \<open>x = 7 = COLS + 1\<close> with that cube's row. A click sends at most one request, and
  none when nothing is hit. The first hit \<open>h\<close> is one of \<open>pickMeshes\<close>. This holds for
  the click handler of the README.md script and for that of static/app.js.
\<close>

theorem click_dispatch_within_reach:
  "requests (onClick [] s) = requests s
   \<and> (hit_object h \<in> set pickMeshes \<longrightarrow>
      requests (onClick (h # rest) s) = requests s
      \<or> (\<exists>x y. requests (onClick (h # rest) s) = requests s @ [PostClick x y]
            \<and> 1 \<le> x \<and> x \<le> COLS + 1 \<and> 1 \<le> y \<and> y \<le> ROWS
            \<and> (if x \<le> COLS
                then hit_object h = Cube x y \<and> faces_front h
                else hit_object h = Cube COLS y \<and> faces_right h \<and> \<not> faces_front h)))
   \<and> requests (onClick_agv [] a) = requests a
   \<and> (hit_object h' \<in> set pickMeshes_agv \<longrightarrow>
      requests (onClick_agv (h' # rest') a) = requests a
      \<or> (\<exists>x y. requests (onClick_agv (h' # rest') a) = requests a @ [PostClick x y]
            \<and> 1 \<le> x \<and> x \<le> COLS + 1 \<and> 1 \<le> y \<and> y \<le> ROWS
            \<and> (if x \<le> COLS
                then hit_object h' = (x, y) \<and> faces_front h'
                else hit_object h' = (COLS, y) \<and> faces_right h' \<and> \<not> faces_front h')))"
proof -
  have seven: "COLS + 1 = 7" by (simp add: COLS_def)
  have sys: "requests (onClick (h # rest) s) = requests s
      \<or> (\<exists>x y. requests (onClick (h # rest) s) = requests s @ [PostClick x y]
            \<and> 1 \<le> x \<and> x \<le> COLS + 1 \<and> 1 \<le> y \<and> y \<le> ROWS
            \<and> (if x \<le> COLS
                then hit_object h = Cube x y \<and> faces_front h
                else hit_object h = Cube COLS y \<and> faces_right h \<and> \<not> faces_front h))"
    if m: "hit_object h \<in> set pickMeshes"
  proof (cases "hit_object h")
    case MachinePanel
    then show ?thesis by (simp add: onClick_def)
  next
    case (Cube x y)
    then have b: "1 \<le> x" "x \<le> COLS" "1 \<le> y" "y \<le> ROWS"
      using m by (simp_all add: pickMeshes_set)
    show ?thesis
    proof (cases "isSystemBusy s")
      case True
      then show ?thesis by (simp add: onClick_def)
    next
      case False
      show ?thesis
      proof (cases "faces_front h")
        case True
        have "requests (onClick (h # rest) s) = requests s @ [PostClick x y]"
          using Cube False True by (simp add: onClick_def sendClick_requests)
        then show ?thesis using b Cube True by auto
      next
        case nf: False
        show ?thesis
        proof (cases "x = COLS \<and> faces_right h")
          case True
          have "requests (onClick (h # rest) s) = requests s @ [PostClick (COLS + 1) y]"
            using Cube False nf True by (simp add: onClick_def sendClick_requests seven)
          then show ?thesis using b Cube True nf by auto
        next
          case False
          then have "requests (onClick (h # rest) s) = requests s"
            using Cube nf by (auto simp add: onClick_def)
          then show ?thesis by simp
        qed
      qed
    qed
  qed
  have agv: "requests (onClick_agv (h' # rest') a) = requests a
      \<or> (\<exists>x y. requests (onClick_agv (h' # rest') a) = requests a @ [PostClick x y]
            \<and> 1 \<le> x \<and> x \<le> COLS + 1 \<and> 1 \<le> y \<and> y \<le> ROWS
            \<and> (if x \<le> COLS
                then hit_object h' = (x, y) \<and> faces_front h'
                else hit_object h' = (COLS, y) \<and> faces_right h' \<and> \<not> faces_front h'))"
    if m: "hit_object h' \<in> set pickMeshes_agv"
  proof -
    obtain x y where xy: "hit_object h' = (x, y)"
      by (cases "hit_object h'")
    then have b: "1 \<le> x" "x \<le> COLS" "1 \<le> y" "y \<le> ROWS"
      using m by (simp_all add: pickMeshes_agv_set)
    show ?thesis
    proof (cases "isAgvBusy a")
      case True
      then show ?thesis by (simp add: onClick_agv_def)
    next
      case False
      show ?thesis
      proof (cases "faces_front h'")
        case True
        have "requests (onClick_agv (h' # rest') a) = requests a @ [PostClick x y]"
          using xy False True by (simp add: onClick_agv_def sendClick_agv_requests)
        then show ?thesis using b xy True by auto
      next
        case nf: False
        show ?thesis
        proof (cases "x = COLS \<and> faces_right h'")
          case True
          have "requests (onClick_agv (h' # rest') a) = requests a @ [PostClick (COLS + 1) y]"
            using xy False nf True
            by (simp add: onClick_agv_def sendClick_agv_requests seven)
          then show ?thesis using b xy True nf by auto
        next
          case False
          then have "requests (onClick_agv (h' # rest') a) = requests a"
            using xy nf by (auto simp add: onClick_agv_def)
          then show ?thesis by simp
        qed
      qed
    qed
  qed
  have e: "requests (onClick [] s) = requests s" "requests (onClick_agv [] a) = requests a"
    by (simp_all add: onClick_def onClick_agv_def)
  show ?thesis using sys agv e by blast
qed

theorem click_dispatch_within_reach_witness:
  "Cube 2 9 \<in> set pickMeshes
   \<and> requests (onClick [\<lparr>hit_object = Cube 2 9, faces_front = True, faces_right = False\<rparr>]
                 initial_state) = [PostClick 2 9]
   \<and> (6, 3) \<in> set pickMeshes_agv
   \<and> requests (onClick_agv [\<lparr>hit_object = (6, 3), faces_front = False, faces_right = True\<rparr>]
                 initial_agv_state) = [PostClick 7 3]
   \<and> COLS + 1 = 7 \<and> ROWS = 10"
proof -
  have m: "Cube 2 9 \<in> set pickMeshes" "(6, 3) \<in> set pickMeshes_agv"
    by (simp_all add: pickMeshes_set pickMeshes_agv_set COLS_def ROWS_def)
  have q: "requests (onClick [\<lparr>hit_object = Cube 2 9, faces_front = True, faces_right = False\<rparr>]
                 initial_state) = [PostClick 2 9]"
    by (simp add: onClick_def sendClick_requests initial_state_def)
  have q': "requests (onClick_agv [\<lparr>hit_object = (6, 3), faces_front = False, faces_right = True\<rparr>]
                 initial_agv_state) = [PostClick 7 3]"
    by (simp add: onClick_agv_def sendClick_agv_requests initial_agv_state_def COLS_def)
  show ?thesis
    using click_dispatch_within_reach
      [of initial_state "\<lparr>hit_object = Cube 2 9, faces_front = True, faces_right = False\<rparr>" "[]"
          initial_agv_state "\<lparr>hit_object = (6, 3), faces_front = False, faces_right = True\<rparr>" "[]"]
      m q q'
    by (simp add: COLS_def ROWS_def)
qed

end
